theory Spec2Isabelle
  imports Main "HOL-Library.Word" "HOL-Library.Sublist"
begin

section \<open>JavaScript values\<close>

text \<open>
  The repository holds two variants of one Express server: \<^verbatim>\<open>src/unnamed/part_000\<close>
  (verification and delivery on both \<^verbatim>\<open>/\<close> and \<^verbatim>\<open>/webhook\<close>, an early
  acknowledgment message) and \<^verbatim>\<open>src/webhook_server.js\<close> (only \<^verbatim>\<open>/webhook\<close>, no
  acknowledgment). The functions of the first keep their source names; those of the second
  carry the prefix \<open>ws_\<close>. The message templates and \<^verbatim>\<open>formatResponseMessage\<close> are
  the same text in both files and are defined once.

  A JavaScript string is a sequence of UTF-16 code units. ASCII text is written as a
  literal through \<open>ascii\<close>, everything else (Arabic text, emoji, box-drawing characters)
  as the code units of the source text.
\<close>

type_synonym jsstr = "16 word list"

definition ascii :: "string \<Rightarrow> jsstr" where
  "ascii s = map of_char s"

text \<open>
  The values the program handles come out of \<^verbatim>\<open>JSON.parse\<close> (the request body, the
  reply of the processing endpoint), out of the query-string parser, or are
  \<^verbatim>\<open>undefined\<close>. A number is kept as its decimal rendering by \<^verbatim>\<open>ToString\<close>, which
  determines the double up to the sign of zero; the program never computes with a number
  it received, it only tests it for truthiness and prints it. An object is the list of
  its own properties; the first binding of a name is the property (\<open>map_of\<close>).
\<close>

datatype jsval =
    JUndefined
  | JNull
  | JBool bool
  | JNum jsstr
  | JStr jsstr
  | JArr "jsval list"
  | JObj "(jsstr \<times> jsval) list"

datatype exn = TypeError | RequestError

text \<open>
  A computation ends abruptly when it throws an exception, which a catch block can
  handle, or when the Node.js process exits, which nothing in the program can handle.
\<close>

datatype abrupt = Throw exn | Exit

text \<open>Truthiness, as tested by \<^verbatim>\<open>!\<close>, \<^verbatim>\<open>&&\<close>, \<^verbatim>\<open>||\<close> and \<^verbatim>\<open>if\<close>.\<close>

fun truthy :: "jsval \<Rightarrow> bool" where
  "truthy JUndefined = False"
| "truthy JNull = False"
| "truthy (JBool b) = b"
| "truthy (JNum r) = (r \<noteq> ascii ''0'' \<and> r \<noteq> ascii ''NaN'')"
| "truthy (JStr s) = (s \<noteq> [])"
| "truthy (JArr xs) = True"
| "truthy (JObj kvs) = True"

text \<open>
  Reading a property by one of the names the program uses (\<^verbatim>\<open>entry\<close>, \<^verbatim>\<open>changes\<close>,
  \<^verbatim>\<open>value\<close>, \<^verbatim>\<open>messages\<close>, \<^verbatim>\<open>from\<close>, \<^verbatim>\<open>id\<close>, \<^verbatim>\<open>type\<close>, \<^verbatim>\<open>text\<close>, \<^verbatim>\<open>body\<close>,
  \<^verbatim>\<open>ui_output_8\<close>, \<^verbatim>\<open>overall_response\<close>). No built-in prototype defines any of them,
  so the read finds an own property of an object or nothing; on \<^verbatim>\<open>undefined\<close> and
  \<^verbatim>\<open>null\<close> it throws a TypeError.
\<close>

definition getOwn :: "jsval \<Rightarrow> jsstr \<Rightarrow> jsval" where
  "getOwn v k =
     (case v of
        JObj kvs \<Rightarrow> (case map_of kvs k of Some x \<Rightarrow> x | None \<Rightarrow> JUndefined)
      | _ \<Rightarrow> JUndefined)"

definition getProp :: "jsval \<Rightarrow> jsstr \<Rightarrow> exn + jsval" where
  "getProp v k =
     (case v of
        JUndefined \<Rightarrow> Inl TypeError
      | JNull \<Rightarrow> Inl TypeError
      | _ \<Rightarrow> Inr (getOwn v k))"

text \<open>
  \<^verbatim>\<open>ToString\<close>, as applied by a template literal and by a computed property key. An
  array is joined with commas, \<^verbatim>\<open>null\<close> and \<^verbatim>\<open>undefined\<close> elements giving the empty
  string. A parsed object inherits \<^verbatim>\<open>Object.prototype.toString\<close> unless it has an own
  property \<^verbatim>\<open>toString\<close>: that one is data, not a function, the conversion then falls
  back to \<^verbatim>\<open>valueOf\<close>, which gives no primitive either, and a TypeError is thrown.
\<close>

fun joinStrings :: "(exn + jsstr) list \<Rightarrow> exn + jsstr" where
  "joinStrings [] = Inr []"
| "joinStrings [r] = r"
| "joinStrings (r # rs) =
     (case r of
        Inl e \<Rightarrow> Inl e
      | Inr s \<Rightarrow> (case joinStrings rs of Inl e \<Rightarrow> Inl e | Inr t \<Rightarrow> Inr (s @ ascii '','' @ t)))"

fun toStringJS :: "jsval \<Rightarrow> exn + jsstr" where
  "toStringJS JUndefined = Inr (ascii ''undefined'')"
| "toStringJS JNull = Inr (ascii ''null'')"
| "toStringJS (JBool b) = Inr (if b then ascii ''true'' else ascii ''false'')"
| "toStringJS (JNum r) = Inr r"
| "toStringJS (JStr s) = Inr s"
| "toStringJS (JArr xs) =
     joinStrings (map (\<lambda>x. if x = JUndefined \<or> x = JNull then Inr [] else toStringJS x) xs)"
| "toStringJS (JObj kvs) =
     (if map_of kvs (ascii ''toString'') = None then Inr (ascii ''[object Object]'')
      else Inl TypeError)"

text \<open>
  \<^verbatim>\<open>for (const x of v)\<close>: an array yields its elements, a string its code points (each
  a string of one code unit, or of two for a surrogate pair); any other value is not
  iterable.
\<close>

definition isHighSurrogate :: "16 word \<Rightarrow> bool" where
  "isHighSurrogate c = (0xD800 \<le> c \<and> c \<le> 0xDBFF)"

definition isLowSurrogate :: "16 word \<Rightarrow> bool" where
  "isLowSurrogate c = (0xDC00 \<le> c \<and> c \<le> 0xDFFF)"

fun codePoints :: "jsstr \<Rightarrow> jsstr list" where
  "codePoints [] = []"
| "codePoints [c] = [[c]]"
| "codePoints (c # d # s) =
     (if isHighSurrogate c \<and> isLowSurrogate d then [c, d] # codePoints s
      else [c] # codePoints (d # s))"

definition iterate :: "jsval \<Rightarrow> exn + jsval list" where
  "iterate v =
     (case v of
        JArr xs \<Rightarrow> Inr xs
      | JStr s \<Rightarrow> Inr (map JStr (codePoints s))
      | _ \<Rightarrow> Inl TypeError)"

section \<open>The approval number\<close>

text \<open>
  \<^verbatim>\<open>String.prototype.trim\<close> removes the code units of the classes WhiteSpace and
  LineTerminator from both ends. The pattern \<^verbatim>\<open>/^\d{8}$/\<close> has no flag: \<^verbatim>\<open>\d\<close> is an
  ASCII digit and \<^verbatim>\<open>$\<close> is the end of the input.
\<close>

definition isWhiteSpace :: "16 word \<Rightarrow> bool" where
  "isWhiteSpace c =
     (c \<in> {0x0009, 0x000A, 0x000B, 0x000C, 0x000D, 0x0020, 0x00A0, 0x1680,
            0x2028, 0x2029, 0x202F, 0x205F, 0x3000, 0xFEFF}
      \<or> (0x2000 \<le> c \<and> c \<le> 0x200A))"

definition trim :: "jsstr \<Rightarrow> jsstr" where
  "trim s = rev (dropWhile isWhiteSpace (rev (dropWhile isWhiteSpace s)))"

definition isDigit :: "16 word \<Rightarrow> bool" where
  "isDigit c = (0x30 \<le> c \<and> c \<le> 0x39)"

definition isApprovalNumber :: "jsstr \<Rightarrow> bool" where
  "isApprovalNumber s = (length s = 8 \<and> list_all isDigit s)"

section \<open>Message templates\<close>

definition separatorLine :: jsstr where
  "separatorLine = replicate 22 0x2501"

definition helpMessage :: jsstr where
  "helpMessage =
     [0x0645, 0x0631, 0x062D, 0x0628, 0x0627, 0x064B, 0x0021, 0x0020, 0xD83D, 0xDC4B] @
     ascii ''\<newline>\<newline>'' @
     [0x0644, 0x0644, 0x0627, 0x0633, 0x062A, 0x0639, 0x0644, 0x0627, 0x0645, 0x0020, 0x0639] @
     [0x0646, 0x0020, 0x062D, 0x0627, 0x0644, 0x0629, 0x0020, 0x0627, 0x0644, 0x0645, 0x0648] @
     [0x0627, 0x0641, 0x0642, 0x0629, 0x0020, 0x0627, 0x0644, 0x0645, 0x0633, 0x0628, 0x0642] @
     [0x0629, 0x060C, 0x0020, 0x064A, 0x0631, 0x062C, 0x0649, 0x0020, 0x0625, 0x0631, 0x0633] @
     [0x0627, 0x0644, 0x0020, 0x0631, 0x0642, 0x0645, 0x0020, 0x0627, 0x0644, 0x0645, 0x0648] @
     [0x0627, 0x0641, 0x0642, 0x0629] @
     ascii '' (8 '' @
     [0x0623, 0x0631, 0x0642, 0x0627, 0x0645] @
     ascii '').\<newline>\<newline>'' @
     [0x0645, 0x062B, 0x0627, 0x0644] @
     ascii '': 88825481\<newline>\<newline>'' @
     separatorLine @
     ascii ''\<newline>\<newline>Hello! '' @
     [0xD83D, 0xDC4B] @
     ascii ''\<newline>\<newline>To check your preauthorization status, please send your approval num'' @
     ascii ''ber (8 digits).\<newline>\<newline>Example: 88825481\<newline>\<newline>'' @
     [0xD83E, 0xDD16] @
     ascii '' Tawuniya AI Assistant''"

definition warningSign :: jsstr where
  "warningSign = [0x26A0, 0xFE0F]"

definition errorMessage :: "jsstr \<Rightarrow> jsstr" where
  "errorMessage errorText =
     warningSign @ ascii '' '' @ errorText @
     ascii ''\<newline>\<newline>'' @
     [0x064A, 0x0631, 0x062C, 0x0649, 0x0020, 0x0627, 0x0644, 0x0645, 0x062D, 0x0627, 0x0648] @
     [0x0644, 0x0629, 0x0020, 0x0645, 0x0631, 0x0629, 0x0020, 0x0623, 0x062E, 0x0631, 0x0649] @
     [0x0020, 0x0623, 0x0648, 0x0020, 0x0627, 0x0644, 0x0627, 0x062A, 0x0635, 0x0627, 0x0644] @
     [0x0020, 0x0628, 0x062E, 0x062F, 0x0645, 0x0629, 0x0020, 0x0627, 0x0644, 0x0639, 0x0645] @
     [0x0644, 0x0627, 0x0621] @
     ascii ''.\<newline>Please try again or contact customer service.\<newline>\<newline>'' @
     [0xD83D, 0xDCDE] @
     ascii '' 920000812''"

definition failedToProcess :: jsstr where
  "failedToProcess =
     [0x0641, 0x0634, 0x0644, 0x0020, 0x0641, 0x064A, 0x0020, 0x0645, 0x0639, 0x0627, 0x0644] @
     [0x062C, 0x0629, 0x0020, 0x0627, 0x0644, 0x0637, 0x0644, 0x0628] @
     ascii '' / Failed to process request''"

definition errorOccurred :: jsstr where
  "errorOccurred =
     [0x062D, 0x062F, 0x062B, 0x0020, 0x062E, 0x0637, 0x0623] @
     ascii '' / An error occurred''"

definition acknowledgment :: "jsstr \<Rightarrow> jsstr" where
  "acknowledgment approvalNumber =
     [0xD83E, 0xDD16] @
     ascii '' I'm AI Agent, I'll check your request and reply ASAP\<newline>\<newline>'' @
     [0x0623, 0x0646, 0x0627, 0x0020, 0x0648, 0x0643, 0x064A, 0x0644, 0x0020, 0x0627, 0x0644] @
     [0x0630, 0x0643, 0x0627, 0x0621, 0x0020, 0x0627, 0x0644, 0x0627, 0x0635, 0x0637, 0x0646] @
     [0x0627, 0x0639, 0x064A, 0x060C, 0x0020, 0x0633, 0x0623, 0x062A, 0x062D, 0x0642, 0x0642] @
     [0x0020, 0x0645, 0x0646, 0x0020, 0x0637, 0x0644, 0x0628, 0x0643, 0x0020, 0x0648, 0x0623] @
     [0x0631, 0x062F, 0x0020, 0x0641, 0x064A, 0x0020, 0x0623, 0x0642, 0x0631, 0x0628, 0x0020] @
     [0x0648, 0x0642, 0x062A] @
     ascii ''\<newline>\<newline>Approval Number: '' @
     approvalNumber"

definition fallbackMessage :: "jsstr \<Rightarrow> jsstr" where
  "fallbackMessage approvalNumber =
     [0x062A, 0x0645, 0x0020, 0x0627, 0x0633, 0x062A, 0x0644, 0x0627, 0x0645, 0x0020, 0x0631] @
     [0x0642, 0x0645, 0x0020, 0x0627, 0x0644, 0x0645, 0x0648, 0x0627, 0x0641, 0x0642, 0x0629] @
     ascii '': '' @
     approvalNumber @
     ascii ''\<newline>\<newline>'' @
     [0x0633, 0x064A, 0x062A, 0x0645, 0x0020, 0x0645, 0x0639, 0x0627, 0x0644, 0x062C, 0x0629] @
     [0x0020, 0x0637, 0x0644, 0x0628, 0x0643, 0x0020, 0x0642, 0x0631, 0x064A, 0x0628, 0x0627] @
     [0x064B] @
     ascii ''.\<newline>\<newline>Approval number received: '' @
     approvalNumber @
     ascii ''\<newline>Your request will be processed shortly.''"

section \<open>The message formatter\<close>

text \<open>
  \<^verbatim>\<open>statusEmoji\<close> is an object literal with four own properties. The lookup
  \<^verbatim>\<open>statusEmoji[overallResponse]\<close> converts the key with \<^verbatim>\<open>ToString\<close> and, for a name
  that is no own property, goes on to \<^verbatim>\<open>Object.prototype\<close>: its twelve members are
  functions, or for \<^verbatim>\<open>__proto__\<close> the prototype object itself, all of them truthy, so
  \<^verbatim>\<open>|| '...'\<close> keeps them and the template prints them. \<open>inheritedMemberText\<close> is the
  text Node.js prints for such a member.
\<close>

definition statusEmoji :: "(jsstr \<times> jsstr) list" where
  "statusEmoji =
     [(ascii ''A'', [0x2705]),
      (ascii ''D'', [0x274C]),
      (ascii ''F'', [0x26A0, 0xFE0F]),
      (ascii ''P'', [0x26A0, 0xFE0F])]"

definition clipboard :: jsstr where
  "clipboard = [0xD83D, 0xDCCB]"

definition objectPrototypeMethods :: "jsstr list" where
  "objectPrototypeMethods =
     [ascii ''__defineGetter__'', ascii ''__defineSetter__'', ascii ''hasOwnProperty'',
      ascii ''__lookupGetter__'', ascii ''__lookupSetter__'', ascii ''isPrototypeOf'',
      ascii ''propertyIsEnumerable'', ascii ''toString'', ascii ''valueOf'',
      ascii ''toLocaleString'']"

definition inheritedMemberText :: "jsstr \<Rightarrow> jsstr option" where
  "inheritedMemberText k =
     (if k = ascii ''constructor'' then Some (ascii ''function Object() { [native code] }'')
      else if k = ascii ''__proto__'' then Some (ascii ''[object Object]'')
      else if k \<in> set objectPrototypeMethods
        then Some (ascii ''function '' @ k @ ascii ''() { [native code] }'')
      else None)"

definition emojiFor :: "jsstr \<Rightarrow> jsstr" where
  "emojiFor key =
     (case map_of statusEmoji key of
        Some glyph \<Rightarrow> glyph
      | None \<Rightarrow> (case inheritedMemberText key of Some t \<Rightarrow> t | None \<Rightarrow> clipboard))"

definition resultTitle :: jsstr where
  "resultTitle =
     ascii '' *'' @
     [0x0646, 0x062A, 0x064A, 0x062C, 0x0629, 0x0020, 0x0627, 0x0644, 0x0645, 0x0648, 0x0627] @
     [0x0641, 0x0642, 0x0629, 0x0020, 0x0627, 0x0644, 0x0645, 0x0633, 0x0628, 0x0642, 0x0629] @
     ascii '' / Preauthorization Result*\<newline>\<newline>*'' @
     [0x0631, 0x0642, 0x0645, 0x0020, 0x0627, 0x0644, 0x0645, 0x0648, 0x0627, 0x0641, 0x0642] @
     [0x0629] @
     ascii '' / Approval Number:* ''"

definition statusLabel :: jsstr where
  "statusLabel =
     ascii ''\<newline>\<newline>*'' @
     [0x0627, 0x0644, 0x062D, 0x0627, 0x0644, 0x0629] @
     ascii '' / Status:* ''"

definition bodyOpen :: jsstr where
  "bodyOpen = ascii ''\<newline>\<newline>'' @ separatorLine @ ascii ''\<newline>\<newline>''"

definition resultFooter :: jsstr where
  "resultFooter =
     ascii ''\<newline>\<newline>'' @
     separatorLine @
     ascii ''\<newline>\<newline>'' @
     [0xD83E, 0xDD16, 0x0020, 0x005F, 0x062A, 0x0645, 0x0020, 0x0627, 0x0644, 0x0645, 0x0639] @
     [0x0627, 0x0644, 0x062C, 0x0629, 0x0020, 0x062A, 0x0644, 0x0642, 0x0627, 0x0626, 0x064A] @
     [0x0627, 0x064B, 0x0020, 0x0628, 0x0648, 0x0627, 0x0633, 0x0637, 0x0629, 0x0020, 0x0627] @
     [0x0644, 0x0630, 0x0643, 0x0627, 0x0621, 0x0020, 0x0627, 0x0644, 0x0627, 0x0635, 0x0637] @
     [0x0646, 0x0627, 0x0639, 0x064A] @
     ascii ''_\<newline>_Processed automatically by AI_\<newline>\<newline>_'' @
     [0x0644, 0x0644, 0x0645, 0x0632, 0x064A, 0x062F, 0x0020, 0x0645, 0x0646, 0x0020, 0x0627] @
     [0x0644, 0x062A, 0x0641, 0x0627, 0x0635, 0x064A, 0x0644, 0x060C, 0x0020, 0x064A, 0x0631] @
     [0x062C, 0x0649, 0x0020, 0x0645, 0x0631, 0x0627, 0x062C, 0x0639, 0x0629, 0x0020, 0x0646] @
     [0x0638, 0x0627, 0x0645] @
     ascii '' MEDGO_\<newline>_For more details, please check MEDGO system_''"

text \<open>
  The template converts its four holes in order: the glyph, the approval number, the
  status and the summary. Each conversion can throw.
\<close>

definition formatResponseMessage :: "jsval \<Rightarrow> jsval \<Rightarrow> jsval \<Rightarrow> exn + jsstr" where
  "formatResponseMessage approvalNumber csMessage overallResponse =
     (case toStringJS overallResponse of
        Inl e \<Rightarrow> Inl e
      | Inr status \<Rightarrow>
          (case toStringJS approvalNumber of
             Inl e \<Rightarrow> Inl e
           | Inr code \<Rightarrow>
               (case toStringJS csMessage of
                  Inl e \<Rightarrow> Inl e
                | Inr summary \<Rightarrow>
                    Inr (emojiFor status @ resultTitle @ code @ statusLabel @ status @
                         bodyOpen @ summary @ resultFooter))))"

section \<open>Effects\<close>

text \<open>
  What the server does to the outside is recorded as a trace of events, in the order the
  calls are made: the HTTP response to the caller of the webhook, the request to the
  processing endpoint, the request to the delivery endpoint (the Cloud Function that
  sends a WhatsApp message to \<^verbatim>\<open>phone_number\<close>). Console output is not recorded.

  The two endpoints are the environment. An axios promise is fulfilled with a status
  and a parsed body, or rejected (time-out, network error, status outside 2xx). The
  environment may answer from everything that has happened so far.

  \<^verbatim>\<open>part_000\<close> starts the request to the processing endpoint, then waits 500 ms, then
  awaits the delivery of the acknowledgment, and only then awaits the promise of the
  request. Until then the promise has no handler. If it is rejected in that time, the
  rejection is unhandled; the program installs no \<^verbatim>\<open>unhandledRejection\<close> handler, and
  Node.js (version 15 and later) then ends the process. So the environment also says at
  which of the three waits the promise of the processing request is settled.
  \<^verbatim>\<open>webhook_server.js\<close> awaits the promise at once, and both files await every delivery
  at once, so there the moment plays no part.

  An asynchronous function takes the trace and returns it extended, with \<open>Inr\<close> when it
  returns, \<open>Inl (Throw e)\<close> when it throws (its promise is rejected) and \<open>Inl Exit\<close>
  when the process has ended. The lengths of the delay and of the time-outs are not
  represented.
\<close>

datatype event =
    Respond nat jsval
  | ProcessingPost jsstr
  | DeliveryPost jsval jsstr

datatype reply = Fulfilled nat jsval | Rejected

datatype moment = DuringDelay | DuringAcknowledgment | WhileAwaited

record world =
  processingApi :: "event list \<Rightarrow> jsstr \<Rightarrow> reply"
  settledAt :: "event list \<Rightarrow> jsstr \<Rightarrow> moment"
  cloudFunction :: "event list \<Rightarrow> jsval \<Rightarrow> jsstr \<Rightarrow> reply"

type_synonym 'a outcome = "(abrupt + 'a) \<times> event list"

definition andThen :: "'a outcome \<Rightarrow> ('a \<Rightarrow> event list \<Rightarrow> 'b outcome) \<Rightarrow> 'b outcome" where
  "andThen r k = (case r of (Inl a, tr) \<Rightarrow> (Inl a, tr) | (Inr x, tr) \<Rightarrow> k x tr)"

definition tryCatch :: "'a outcome \<Rightarrow> (exn \<Rightarrow> event list \<Rightarrow> 'a outcome) \<Rightarrow> 'a outcome" where
  "tryCatch r h =
     (case r of
        (Inl (Throw e), tr) \<Rightarrow> h e tr
      | (Inl Exit, tr) \<Rightarrow> (Inl Exit, tr)
      | (Inr x, tr) \<Rightarrow> (Inr x, tr))"

text \<open>The value of an expression that has no effect of its own: it is there, or it throws.\<close>

definition computed :: "exn + 'a \<Rightarrow> event list \<Rightarrow> 'a outcome" where
  "computed r tr = (case r of Inl e \<Rightarrow> (Inl (Throw e), tr) | Inr x \<Rightarrow> (Inr x, tr))"

text \<open>A console call whose template literal converts \<open>v\<close>: it prints, or throws.\<close>

definition logValue :: "jsval \<Rightarrow> event list \<Rightarrow> unit outcome" where
  "logValue v tr =
     (case toStringJS v of Inl e \<Rightarrow> (Inl (Throw e), tr) | Inr s \<Rightarrow> (Inr (), tr))"

section \<open>The delivery client\<close>

text \<open>
  \<^verbatim>\<open>sendResponseMessage\<close> of \<^verbatim>\<open>part_000\<close> logs the target and a preview of the message
  (always a string) before it posts. What follows the post only logs; an exception there
  ends in the catch block, which only logs as well.
\<close>

definition sendResponseMessage :: "world \<Rightarrow> jsval \<Rightarrow> jsstr \<Rightarrow> event list \<Rightarrow> unit outcome" where
  "sendResponseMessage w phoneNumber message tr =
     tryCatch
       (andThen (logValue phoneNumber tr) (\<lambda>_ tr.
          case cloudFunction w tr phoneNumber message of
            Rejected \<Rightarrow> (Inl (Throw RequestError), tr @ [DeliveryPost phoneNumber message])
          | Fulfilled status body \<Rightarrow> (Inr (), tr @ [DeliveryPost phoneNumber message])))
       (\<lambda>error tr. (Inr (), tr))"

definition sendHelpMessage :: "world \<Rightarrow> jsval \<Rightarrow> event list \<Rightarrow> unit outcome" where
  "sendHelpMessage w phoneNumber tr = sendResponseMessage w phoneNumber helpMessage tr"

definition sendErrorMessage :: "world \<Rightarrow> jsval \<Rightarrow> jsstr \<Rightarrow> event list \<Rightarrow> unit outcome" where
  "sendErrorMessage w phoneNumber errorText tr =
     sendResponseMessage w phoneNumber (errorMessage errorText) tr"

text \<open>
  \<^verbatim>\<open>sendResponseMessage\<close> of \<^verbatim>\<open>webhook_server.js\<close> posts first and logs the phone number
  only after a reply with status 200.
\<close>

definition ws_sendResponseMessage :: "world \<Rightarrow> jsval \<Rightarrow> jsstr \<Rightarrow> event list \<Rightarrow> unit outcome" where
  "ws_sendResponseMessage w phoneNumber message tr =
     tryCatch
       (case cloudFunction w tr phoneNumber message of
          Rejected \<Rightarrow> (Inl (Throw RequestError), tr @ [DeliveryPost phoneNumber message])
        | Fulfilled status body \<Rightarrow>
            (if status = 200 then logValue phoneNumber (tr @ [DeliveryPost phoneNumber message])
             else (Inr (), tr @ [DeliveryPost phoneNumber message])))
       (\<lambda>error tr. (Inr (), tr))"

definition ws_sendHelpMessage :: "world \<Rightarrow> jsval \<Rightarrow> event list \<Rightarrow> unit outcome" where
  "ws_sendHelpMessage w phoneNumber tr = ws_sendResponseMessage w phoneNumber helpMessage tr"

definition ws_sendErrorMessage :: "world \<Rightarrow> jsval \<Rightarrow> jsstr \<Rightarrow> event list \<Rightarrow> unit outcome" where
  "ws_sendErrorMessage w phoneNumber errorText tr =
     ws_sendResponseMessage w phoneNumber (errorMessage errorText) tr"

section \<open>The request orchestrator\<close>

text \<open>
  \<^verbatim>\<open>messageText.trim()\<close>: only a string has the method. On any other value the call
  throws a TypeError (the property is missing, or it is data of a parsed object).
\<close>

definition trimText :: "jsval \<Rightarrow> exn + jsstr" where
  "trimText v = (case v of JStr s \<Rightarrow> Inr (trim s) | _ \<Rightarrow> Inl TypeError)"

text \<open>
  \<^verbatim>\<open>result.overall_response || 'A'\<close>, and the condition
  \<^verbatim>\<open>result && result.ui_output_8\<close> (the property is read only of a truthy \<open>result\<close>,
  where the read cannot throw).
\<close>

definition overallResponseOf :: "jsval \<Rightarrow> jsval" where
  "overallResponseOf result =
     (if truthy (getOwn result (ascii ''overall_response''))
      then getOwn result (ascii ''overall_response'') else JStr (ascii ''A''))"

definition hasSummary :: "jsval \<Rightarrow> bool" where
  "hasSummary result = (truthy result \<and> truthy (getOwn result (ascii ''ui_output_8'')))"

text \<open>
  \<^verbatim>\<open>${csMessage.length}\<close> in a log line of \<^verbatim>\<open>part_000\<close>: the length of a string or an
  array is a number, a number or boolean has none, and for a parsed object it is an own
  property, which is converted like any value.
\<close>

definition logLength :: "jsval \<Rightarrow> event list \<Rightarrow> unit outcome" where
  "logLength csMessage tr =
     (case csMessage of
        JObj kvs \<Rightarrow> logValue (getOwn csMessage (ascii ''length'')) tr
      | _ \<Rightarrow> (Inr (), tr))"

text \<open>
  The inner try block of \<^verbatim>\<open>part_000\<close> (lines 132 to 187). The request to the processing
  endpoint is started and its promise kept. If the promise is rejected during the delay
  of 500 ms, the process ends there. Otherwise the acknowledgment is sent; if the promise
  is rejected while the delivery of the acknowledgment is awaited (there is such a wait
  only if the delivery was posted), the process ends there. Otherwise the promise is
  awaited, and a rejection is thrown into the catch block.
\<close>

definition processIncomingMessage_pipeline ::
  "world \<Rightarrow> jsval \<Rightarrow> jsstr \<Rightarrow> event list \<Rightarrow> unit outcome" where
  "processIncomingMessage_pipeline w phoneNumber approvalNumber tr =
     (let apiPromise = processingApi w tr approvalNumber;
          rejectedAt = (\<lambda>m. apiPromise = Rejected \<and> settledAt w tr approvalNumber = m);
          started = tr @ [ProcessingPost approvalNumber] in
      if rejectedAt DuringDelay then (Inl Exit, started)
      else
        andThen (sendResponseMessage w phoneNumber (acknowledgment approvalNumber) started)
          (\<lambda>_ tr.
             if rejectedAt DuringAcknowledgment \<and> tr \<noteq> started then (Inl Exit, tr)
             else
               (case apiPromise of
                  Rejected \<Rightarrow> (Inl (Throw RequestError), tr)
                | Fulfilled status result \<Rightarrow>
                    (if hasSummary result then
                       (let csMessage = getOwn result (ascii ''ui_output_8'');
                            overallResponse = overallResponseOf result in
                        andThen (logValue overallResponse tr) (\<lambda>_ tr.
                        andThen (logLength csMessage tr) (\<lambda>_ tr.
                        andThen (computed (formatResponseMessage (JStr approvalNumber)
                                             csMessage overallResponse) tr)
                          (\<lambda>formattedMessage tr.
                             sendResponseMessage w phoneNumber formattedMessage tr))))
                     else sendErrorMessage w phoneNumber failedToProcess tr))))"

text \<open>The outer try block (lines 106 to 207), with the catch block of the inner one.\<close>

definition processIncomingMessage_body ::
  "world \<Rightarrow> jsval \<Rightarrow> jsval \<Rightarrow> event list \<Rightarrow> unit outcome" where
  "processIncomingMessage_body w phoneNumber messageText tr =
     andThen (logValue phoneNumber tr) (\<lambda>_ tr.
     andThen (logValue messageText tr) (\<lambda>_ tr.
     andThen (computed (trimText messageText) tr) (\<lambda>approvalNumber tr.
       if \<not> isApprovalNumber approvalNumber then sendHelpMessage w phoneNumber tr
       else
         tryCatch (processIncomingMessage_pipeline w phoneNumber approvalNumber tr)
           (\<lambda>apiError tr.
              sendResponseMessage w phoneNumber (fallbackMessage approvalNumber) tr))))"

definition processIncomingMessage ::
  "world \<Rightarrow> jsval \<Rightarrow> jsval \<Rightarrow> event list \<Rightarrow> unit outcome" where
  "processIncomingMessage w phoneNumber messageText tr =
     tryCatch (processIncomingMessage_body w phoneNumber messageText tr)
       (\<lambda>error tr. sendErrorMessage w phoneNumber errorOccurred tr)"

text \<open>
  \<^verbatim>\<open>webhook_server.js\<close>: the reply of the processing endpoint is awaited at once
  (lines 106 to 126); no acknowledgment is sent and nothing is logged in between.
\<close>

definition ws_processIncomingMessage_pipeline ::
  "world \<Rightarrow> jsval \<Rightarrow> jsstr \<Rightarrow> event list \<Rightarrow> unit outcome" where
  "ws_processIncomingMessage_pipeline w phoneNumber approvalNumber tr =
     (case processingApi w tr approvalNumber of
        Rejected \<Rightarrow> (Inl (Throw RequestError), tr @ [ProcessingPost approvalNumber])
      | Fulfilled status result \<Rightarrow>
          (if hasSummary result then
             (let csMessage = getOwn result (ascii ''ui_output_8'');
                  overallResponse = overallResponseOf result in
              andThen (computed (formatResponseMessage (JStr approvalNumber) csMessage
                                   overallResponse)
                         (tr @ [ProcessingPost approvalNumber]))
                (\<lambda>formattedMessage tr.
                   ws_sendResponseMessage w phoneNumber formattedMessage tr))
           else ws_sendErrorMessage w phoneNumber failedToProcess
                  (tr @ [ProcessingPost approvalNumber])))"

definition ws_processIncomingMessage_body ::
  "world \<Rightarrow> jsval \<Rightarrow> jsval \<Rightarrow> event list \<Rightarrow> unit outcome" where
  "ws_processIncomingMessage_body w phoneNumber messageText tr =
     andThen (computed (trimText messageText) tr) (\<lambda>approvalNumber tr.
       if \<not> isApprovalNumber approvalNumber then ws_sendHelpMessage w phoneNumber tr
       else
         tryCatch (ws_processIncomingMessage_pipeline w phoneNumber approvalNumber tr)
           (\<lambda>apiError tr.
              ws_sendResponseMessage w phoneNumber (fallbackMessage approvalNumber) tr))"

definition ws_processIncomingMessage ::
  "world \<Rightarrow> jsval \<Rightarrow> jsval \<Rightarrow> event list \<Rightarrow> unit outcome" where
  "ws_processIncomingMessage w phoneNumber messageText tr =
     tryCatch (ws_processIncomingMessage_body w phoneNumber messageText tr)
       (\<lambda>error tr. ws_sendErrorMessage w phoneNumber errorOccurred tr)"

section \<open>Webhook ingress\<close>

text \<open>
  The body of the POST handler is the same text in both files; it is defined once, over
  the orchestrator it awaits (\<open>handleIncomingWebhook\<close> of \<^verbatim>\<open>part_000\<close>, and the function
  that \<^verbatim>\<open>webhook_server.js\<close> passes to \<^verbatim>\<open>app.post\<close>, here \<open>ws_postWebhook\<close>). The three nested \<^verbatim>\<open>for ... of\<close> loops are the three
  recursive functions; each awaits the orchestrator before it goes on to the next
  message, and an exception, or the end of the process, leaves all three loops.
\<close>

type_synonym orchestrator = "jsval \<Rightarrow> jsval \<Rightarrow> event list \<Rightarrow> unit outcome"

text \<open>\<^verbatim>\<open>message.text?.body || ''\<close>, for a \<open>message\<close> that is neither null nor undefined.\<close>

definition messageTextOf :: "jsval \<Rightarrow> jsval" where
  "messageTextOf message =
     (let text = getOwn message (ascii ''text'');
          body = (if text = JUndefined \<or> text = JNull then JUndefined
                  else getOwn text (ascii ''body''))
      in if truthy body then body else JStr [])"

definition onMessage :: "orchestrator \<Rightarrow> jsval \<Rightarrow> event list \<Rightarrow> unit outcome" where
  "onMessage orch message tr =
     andThen (computed (getProp message (ascii ''from'')) tr) (\<lambda>fromNumber tr.
     andThen (computed (getProp message (ascii ''id'')) tr) (\<lambda>messageId tr.
     andThen (computed (getProp message (ascii ''type'')) tr) (\<lambda>messageType tr.
       if messageType \<noteq> JStr (ascii ''text'') then logValue messageType tr
       else
         (let messageText = messageTextOf message in
          andThen (logValue fromNumber tr) (\<lambda>_ tr.
          andThen (logValue messageText tr) (\<lambda>_ tr.
            orch fromNumber messageText tr))))))"

fun forMessages :: "orchestrator \<Rightarrow> jsval list \<Rightarrow> event list \<Rightarrow> unit outcome" where
  "forMessages orch [] tr = (Inr (), tr)"
| "forMessages orch (message # rest) tr =
     (case onMessage orch message tr of
        (Inl a, tr') \<Rightarrow> (Inl a, tr')
      | (Inr _, tr') \<Rightarrow> forMessages orch rest tr')"

text \<open>
  \<^verbatim>\<open>x || []\<close> followed by the start of a loop over it: a falsy \<open>x\<close> gives no elements.
\<close>

definition itemsOrNone :: "jsval \<Rightarrow> exn + jsval list" where
  "itemsOrNone x = (if truthy x then iterate x else Inr [])"

definition onChange :: "orchestrator \<Rightarrow> jsval \<Rightarrow> event list \<Rightarrow> unit outcome" where
  "onChange orch change tr =
     andThen (computed (getProp change (ascii ''value'')) tr) (\<lambda>v tr.
       (let value = (if truthy v then v else JObj []) in
        andThen (computed (itemsOrNone (getOwn value (ascii ''messages''))) tr) (\<lambda>messages tr.
          forMessages orch messages tr)))"

fun forChanges :: "orchestrator \<Rightarrow> jsval list \<Rightarrow> event list \<Rightarrow> unit outcome" where
  "forChanges orch [] tr = (Inr (), tr)"
| "forChanges orch (change # rest) tr =
     (case onChange orch change tr of
        (Inl a, tr') \<Rightarrow> (Inl a, tr')
      | (Inr _, tr') \<Rightarrow> forChanges orch rest tr')"

definition onEntry :: "orchestrator \<Rightarrow> jsval \<Rightarrow> event list \<Rightarrow> unit outcome" where
  "onEntry orch entry tr =
     andThen (computed (getProp entry (ascii ''changes'')) tr) (\<lambda>changes tr.
     andThen (computed (itemsOrNone changes) tr) (\<lambda>changes tr.
       forChanges orch changes tr))"

fun forEntries :: "orchestrator \<Rightarrow> jsval list \<Rightarrow> event list \<Rightarrow> unit outcome" where
  "forEntries orch [] tr = (Inr (), tr)"
| "forEntries orch (entry # rest) tr =
     (case onEntry orch entry tr of
        (Inl a, tr') \<Rightarrow> (Inl a, tr')
      | (Inr _, tr') \<Rightarrow> forEntries orch rest tr')"

definition successBody :: jsval where
  "successBody = JObj [(ascii ''status'', JStr (ascii ''success''))]"

text \<open>
  The try block of the handler after the response has been sent (from \<^verbatim>\<open>if (!data.entry)\<close>
  on), and the handler: \<^verbatim>\<open>JSON.stringify\<close> of a parsed body does not throw, the response
  is sent, the messages are extracted and processed, and the catch block only logs.
\<close>

definition extractAndProcess :: "orchestrator \<Rightarrow> jsval \<Rightarrow> event list \<Rightarrow> unit outcome" where
  "extractAndProcess orch data tr =
     andThen (computed (getProp data (ascii ''entry'')) tr) (\<lambda>entry tr.
       if \<not> truthy entry then (Inr (), tr)
       else andThen (computed (iterate entry) tr) (\<lambda>entries tr. forEntries orch entries tr))"

definition webhookHandler :: "orchestrator \<Rightarrow> jsval \<Rightarrow> event list \<Rightarrow> unit outcome" where
  "webhookHandler orch data tr =
     tryCatch (extractAndProcess orch data (tr @ [Respond 200 successBody]))
       (\<lambda>error tr. (Inr (), tr))"

definition handleIncomingWebhook :: "world \<Rightarrow> jsval \<Rightarrow> event list \<Rightarrow> unit outcome" where
  "handleIncomingWebhook w data tr = webhookHandler (processIncomingMessage w) data tr"

definition ws_postWebhook :: "world \<Rightarrow> jsval \<Rightarrow> event list \<Rightarrow> unit outcome" where
  "ws_postWebhook w data tr = webhookHandler (ws_processIncomingMessage w) data tr"

section \<open>Verification and routing\<close>

text \<open>
  The shared secret is read once from the process environment; \<^verbatim>\<open>||\<close> passes over
  a variable that is unset or empty.
\<close>

definition orElse :: "jsstr option \<Rightarrow> jsstr \<Rightarrow> jsstr" where
  "orElse x d = (case x of None \<Rightarrow> d | Some s \<Rightarrow> if s = [] then d else s)"

definition VERIFY_TOKEN :: "(jsstr \<Rightarrow> jsstr option) \<Rightarrow> jsstr" where
  "VERIFY_TOKEN env =
     orElse (env (ascii ''VERIFY_TOKEN''))
       (orElse (env (ascii ''WHATSAPP_VERIFY_TOKEN'')) (ascii ''wa_api_2026''))"

definition ws_VERIFY_TOKEN :: "(jsstr \<Rightarrow> jsstr option) \<Rightarrow> jsstr" where
  "ws_VERIFY_TOKEN env = orElse (env (ascii ''WHATSAPP_VERIFY_TOKEN'')) (ascii ''wa_api_2026'')"

text \<open>
  The verification handler, the same in both files up to logging. \<open>query\<close> is
  \<^verbatim>\<open>req.query\<close>: a parameter is a string, an array or object of the query-string parser,
  or undefined; \<^verbatim>\<open>===\<close> holds between a value and a string only for that string.
\<close>

definition handleVerification :: "jsstr \<Rightarrow> (jsstr \<Rightarrow> jsval) \<Rightarrow> event" where
  "handleVerification token0 query =
     (let mode = query (ascii ''hub.mode'');
          token = query (ascii ''hub.verify_token'');
          challenge = query (ascii ''hub.challenge'')
      in if mode = JStr (ascii ''subscribe'') \<and> token = JStr token0
         then Respond 200 challenge
         else Respond 403 (JStr (ascii ''Verification failed'')))"

text \<open>
  The routes each file registers, in order. Express is used with its default settings:
  a path matches a route without regard to the case of ASCII letters, and with or
  without one slash at the end. A request that matches no route reaches no handler of
  the program (Express answers it with 404).
\<close>

datatype httpMethod = GET | POST

datatype handler = Health | Verification | Delivery

definition routes :: "((httpMethod \<times> jsstr) \<times> handler) list" where
  "routes =
     [((GET, ascii ''/health''), Health),
      ((GET, ascii ''/''), Verification),
      ((GET, ascii ''/webhook''), Verification),
      ((POST, ascii ''/''), Delivery),
      ((POST, ascii ''/webhook''), Delivery)]"

definition ws_routes :: "((httpMethod \<times> jsstr) \<times> handler) list" where
  "ws_routes =
     [((GET, ascii ''/health''), Health),
      ((GET, ascii ''/webhook''), Verification),
      ((POST, ascii ''/webhook''), Delivery)]"

definition toLowerASCII :: "16 word \<Rightarrow> 16 word" where
  "toLowerASCII c = (if 0x41 \<le> c \<and> c \<le> 0x5A then c + 0x20 else c)"

definition withoutSlash :: "jsstr \<Rightarrow> jsstr" where
  "withoutSlash s = (if s \<noteq> [] \<and> last s = 0x2F then butlast s else s)"

definition matchesRoute :: "jsstr \<Rightarrow> jsstr \<Rightarrow> bool" where
  "matchesRoute route path =
     (map toLowerASCII (withoutSlash path) = map toLowerASCII (withoutSlash route))"

definition findRoute ::
  "((httpMethod \<times> jsstr) \<times> handler) list \<Rightarrow> httpMethod \<Rightarrow> jsstr \<Rightarrow> handler option" where
  "findRoute table m path =
     (case filter (\<lambda>((m', route), h). m' = m \<and> matchesRoute route path) table of
        [] \<Rightarrow> None
      | ((m', route), h) # rest \<Rightarrow> Some h)"

text \<open>
  The response to a GET request: that of the handler the path is routed to, and none of
  the program's own where the path is not routed.
\<close>

definition getRequest ::
  "((httpMethod \<times> jsstr) \<times> handler) list \<Rightarrow> jsstr \<Rightarrow> jsstr \<Rightarrow> (jsstr \<Rightarrow> jsval) \<Rightarrow> event option" where
  "getRequest table token0 path query =
     (case findRoute table GET path of
        Some Verification \<Rightarrow> Some (handleVerification token0 query)
      | Some Health \<Rightarrow>
          Some (Respond 200
            (JObj [(ascii ''status'', JStr (ascii ''healthy'')),
                   (ascii ''service'', JStr (ascii ''whatsapp-webhook'')),
                   (ascii ''cloud_function'',
                    JStr (ascii ''https://whatsapp-proxy-66mhuvutfa-uc.a.run.app''))]))
      | _ \<Rightarrow> None)"

section \<open>Notions used in the statements\<close>

text \<open>
  An event that answers the caller of the webhook, and the recipients of the messages
  handed to the delivery endpoint, in order.
\<close>

fun isResponse :: "event \<Rightarrow> bool" where
  "isResponse (Respond status body) = True"
| "isResponse (ProcessingPost approvalNumber) = False"
| "isResponse (DeliveryPost phoneNumber message) = False"


text \<open>
  An outcome extends a trace quietly when it only appends to it and appends no response.
  An outcome stays alive when it is not the end of the process.
\<close>

definition quietly :: "event list \<Rightarrow> 'a outcome \<Rightarrow> bool" where
  "quietly tr r = (\<exists>more. snd r = tr @ more \<and> \<not> list_ex isResponse more)"

definition quietOrchestrator :: "orchestrator \<Rightarrow> bool" where
  "quietOrchestrator orch = (\<forall>a b tr. quietly tr (orch a b tr))"

definition staysAlive :: "'a outcome \<Rightarrow> bool" where
  "staysAlive r = (fst r \<noteq> Inl Exit)"

definition aliveOrchestrator :: "orchestrator \<Rightarrow> bool" where
  "aliveOrchestrator orch = (\<forall>a b tr. staysAlive (orch a b tr))"

text \<open>
  Running an orchestrator on a list of calls, one after the other, each on the trace the
  one before has left, and stopping at the first call that does not return. An outcome
  is reached by runs from a trace when its trace is that of such a sequence of runs, all
  of which have returned if the outcome is a return.
\<close>

fun runAll :: "orchestrator \<Rightarrow> (jsval \<times> jsval) list \<Rightarrow> event list \<Rightarrow> unit outcome" where
  "runAll orch [] tr = (Inr (), tr)"
| "runAll orch ((phoneNumber, messageText) # calls) tr =
     (case orch phoneNumber messageText tr of
        (Inl a, tr') \<Rightarrow> (Inl a, tr')
      | (Inr _, tr') \<Rightarrow> runAll orch calls tr')"

definition ranBy :: "orchestrator \<Rightarrow> event list \<Rightarrow> 'a outcome \<Rightarrow> bool" where
  "ranBy orch tr r =
     (\<exists>calls. snd (runAll orch calls tr) = snd r
        \<and> ((\<exists>x. fst r = Inr x) \<longrightarrow> fst (runAll orch calls tr) = Inr ()))"

section \<open>Example inputs\<close>

text \<open>
  Four environments. In the first three the request to the processing endpoint is
  rejected: at once (the connection is refused during the delay of 500 ms), while the
  acknowledgment is being delivered, or only once the promise is awaited (a time-out
  after 60 s). In the fourth it is answered with a given body. The delivery endpoint
  accepts every message in all of them.
\<close>

definition offline :: world where
  "offline = \<lparr>processingApi = (\<lambda>tr approvalNumber. Rejected),
              settledAt = (\<lambda>tr approvalNumber. DuringDelay),
              cloudFunction = (\<lambda>tr phoneNumber message. Fulfilled 200 JNull)\<rparr>"

definition failingSlowly :: world where
  "failingSlowly = \<lparr>processingApi = (\<lambda>tr approvalNumber. Rejected),
              settledAt = (\<lambda>tr approvalNumber. DuringAcknowledgment),
              cloudFunction = (\<lambda>tr phoneNumber message. Fulfilled 200 JNull)\<rparr>"

definition timingOut :: world where
  "timingOut = \<lparr>processingApi = (\<lambda>tr approvalNumber. Rejected),
              settledAt = (\<lambda>tr approvalNumber. WhileAwaited),
              cloudFunction = (\<lambda>tr phoneNumber message. Fulfilled 200 JNull)\<rparr>"

definition answering :: "jsval \<Rightarrow> world" where
  "answering result = \<lparr>processingApi = (\<lambda>tr approvalNumber. Fulfilled 200 result),
              settledAt = (\<lambda>tr approvalNumber. WhileAwaited),
              cloudFunction = (\<lambda>tr phoneNumber message. Fulfilled 200 JNull)\<rparr>"

text \<open>
  A text message and a notification as the platform sends them, and a verification
  query.
\<close>

definition textMessage :: "jsstr \<Rightarrow> jsstr \<Rightarrow> jsstr \<Rightarrow> jsval" where
  "textMessage sender messageId body =
     JObj [(ascii ''from'', JStr sender), (ascii ''id'', JStr messageId),
           (ascii ''type'', JStr (ascii ''text'')),
           (ascii ''text'', JObj [(ascii ''body'', JStr body)])]"

definition notification :: "jsval list \<Rightarrow> jsval" where
  "notification messages =
     JObj [(ascii ''entry'', JArr [JObj [(ascii ''changes'', JArr [JObj [(ascii ''value'',
       JObj [(ascii ''messages'', JArr messages)])]])]])]"

definition subscribeQuery :: "jsstr \<Rightarrow> jsstr \<Rightarrow> jsstr \<Rightarrow> jsval" where
  "subscribeQuery token challenge k =
     (if k = ascii ''hub.mode'' then JStr (ascii ''subscribe'')
      else if k = ascii ''hub.verify_token'' then JStr token
      else if k = ascii ''hub.challenge'' then JStr challenge
      else JUndefined)"

definition sender1 :: jsstr where
  "sender1 = ascii ''966500000001''"



section \<open>Sequencing, the delivery client and the orchestrator of \<^verbatim>\<open>part_000\<close>\<close>

lemma trim_code [simp]:
  "trim (ascii ''12345678'') = ascii ''12345678''"
  "trim (ascii '' 12345678 '') = ascii ''12345678''"
  "trim (ascii ''11111111'') = ascii ''11111111''"
  "trim (ascii ''22222222'') = ascii ''22222222''"
  "trim (ascii ''hello'') = ascii ''hello''"
  by (simp_all add: trim_def ascii_def isWhiteSpace_def)

lemma isApprovalNumber_code [simp]:
  "isApprovalNumber (ascii ''12345678'')"
  "isApprovalNumber (ascii ''11111111'')"
  "isApprovalNumber (ascii ''22222222'')"
  "\<not> isApprovalNumber (ascii ''hello'')"
  by (simp_all add: isApprovalNumber_def ascii_def isDigit_def)

lemma andThen_Inr [simp]: "andThen (Inr x, tr) k = k x tr"
  by (simp add: andThen_def)

lemma andThen_Inl [simp]: "andThen (Inl a, tr) k = (Inl a, tr)"
  by (simp add: andThen_def)

lemma tryCatch_Inr [simp]: "tryCatch (Inr x, tr) h = (Inr x, tr)"
  by (simp add: tryCatch_def)

lemma tryCatch_Throw [simp]: "tryCatch (Inl (Throw e), tr) h = h e tr"
  by (simp add: tryCatch_def)

lemma tryCatch_Exit [simp]: "tryCatch (Inl Exit, tr) h = (Inl Exit, tr)"
  by (simp add: tryCatch_def)

lemma computed_Inr [simp]: "computed (Inr x) tr = (Inr x, tr)"
  by (simp add: computed_def)

lemma computed_Inl [simp]: "computed (Inl e) tr = (Inl (Throw e), tr)"
  by (simp add: computed_def)

lemma logValue_JStr [simp]: "logValue (JStr s) tr = (Inr (), tr)"
  by (simp add: logValue_def)

lemma sendResponseMessage_JStr:
  "sendResponseMessage w (JStr p) m tr = (Inr (), tr @ [DeliveryPost (JStr p) m])"
  by (simp add: sendResponseMessage_def split: reply.split)

lemma sendResponseMessage_JStr_fun:
  "sendResponseMessage w (JStr p) = (\<lambda>m tr. (Inr (), tr @ [DeliveryPost (JStr p) m]))"
  by (intro ext) (rule sendResponseMessage_JStr)

lemma sendResponseMessage_any:
  "sendResponseMessage w ph m tr =
     (Inr (), case toStringJS ph of Inl e \<Rightarrow> tr | Inr s \<Rightarrow> tr @ [DeliveryPost ph m])"
  by (simp add: sendResponseMessage_def logValue_def split: reply.split sum.split)

lemma ws_sendResponseMessage_any:
  "ws_sendResponseMessage w ph m tr = (Inr (), tr @ [DeliveryPost ph m])"
  by (simp add: ws_sendResponseMessage_def logValue_def split: reply.split sum.split)

lemma pipeline_exit_during_delay:
  assumes "processingApi w tr c = Rejected" and "settledAt w tr c = DuringDelay"
  shows "processIncomingMessage_pipeline w ph c tr = (Inl Exit, tr @ [ProcessingPost c])"
  using assms by (simp add: processIncomingMessage_pipeline_def Let_def)

lemma pipeline_exit_during_acknowledgment:
  assumes "processingApi w tr c = Rejected" and "settledAt w tr c = DuringAcknowledgment"
  shows "processIncomingMessage_pipeline w (JStr p) c tr =
           (Inl Exit, tr @ [ProcessingPost c, DeliveryPost (JStr p) (acknowledgment c)])"
  using assms
  by (simp add: processIncomingMessage_pipeline_def Let_def sendResponseMessage_JStr)

lemma pipeline_rejected_while_awaited:
  assumes "processingApi w tr c = Rejected" and "settledAt w tr c = WhileAwaited"
  shows "processIncomingMessage_pipeline w (JStr p) c tr =
           (Inl (Throw RequestError),
            tr @ [ProcessingPost c, DeliveryPost (JStr p) (acknowledgment c)])"
  using assms
  by (simp add: processIncomingMessage_pipeline_def Let_def sendResponseMessage_JStr)

lemma pipeline_fulfilled:
  assumes "processingApi w tr c = Fulfilled status result"
  shows "(\<exists>e. processIncomingMessage_pipeline w (JStr p) c tr =
          (Inl (Throw e), tr @ [ProcessingPost c, DeliveryPost (JStr p) (acknowledgment c)]))
   \<or> processIncomingMessage_pipeline w (JStr p) c tr =
          (Inr (), tr @ [ProcessingPost c, DeliveryPost (JStr p) (acknowledgment c),
                         DeliveryPost (JStr p) (errorMessage failedToProcess)])
   \<or> (\<exists>cs st m. formatResponseMessage (JStr c) cs st = Inr m \<and>
          processIncomingMessage_pipeline w (JStr p) c tr =
            (Inr (), tr @ [ProcessingPost c, DeliveryPost (JStr p) (acknowledgment c),
                           DeliveryPost (JStr p) m]))"
proof (cases "hasSummary result")
  case False
  with assms show ?thesis
    by (simp add: processIncomingMessage_pipeline_def Let_def sendResponseMessage_JStr
          sendErrorMessage_def)
next
  case True
  let ?cs = "getOwn result (ascii ''ui_output_8'')"
  let ?st = "overallResponseOf result"
  let ?tr = "tr @ [ProcessingPost c, DeliveryPost (JStr p) (acknowledgment c)]"
  have *: "processIncomingMessage_pipeline w (JStr p) c tr =
      andThen (logValue ?st ?tr) (\<lambda>_ tr.
      andThen (logLength ?cs tr) (\<lambda>_ tr.
      andThen (computed (formatResponseMessage (JStr c) ?cs ?st) tr) (\<lambda>m tr.
        (Inr (), tr @ [DeliveryPost (JStr p) m]))))"
    using assms True
    by (simp add: processIncomingMessage_pipeline_def sendResponseMessage_JStr_fun Let_def)
  show ?thesis
  proof (cases "formatResponseMessage (JStr c) ?cs ?st")
    case (Inl e)
    then have "\<exists>e'. processIncomingMessage_pipeline w (JStr p) c tr = (Inl (Throw e'), ?tr)"
      unfolding * by (auto simp: logValue_def logLength_def split: sum.split jsval.split)
    then show ?thesis by blast
  next
    case (Inr m)
    then have "(\<exists>e'. processIncomingMessage_pipeline w (JStr p) c tr = (Inl (Throw e'), ?tr))
        \<or> processIncomingMessage_pipeline w (JStr p) c tr =
            (Inr (), ?tr @ [DeliveryPost (JStr p) m])"
      unfolding * by (auto simp: logValue_def logLength_def split: sum.split jsval.split)
    with Inr show ?thesis by auto
  qed
qed

lemma pim_unfold:
  assumes "isApprovalNumber (trim s)"
  shows "processIncomingMessage w (JStr p) (JStr s) tr =
      tryCatch (tryCatch (processIncomingMessage_pipeline w (JStr p) (trim s) tr)
        (\<lambda>apiError tr. sendResponseMessage w (JStr p) (fallbackMessage (trim s)) tr))
        (\<lambda>error tr. sendErrorMessage w (JStr p) errorOccurred tr)"
  using assms
  by (simp add: processIncomingMessage_def processIncomingMessage_body_def trimText_def)

lemma pim_cases:
  assumes "isApprovalNumber (trim s)"
  shows "(processingApi w tr (trim s) = Rejected \<and> settledAt w tr (trim s) = DuringDelay \<and>
          processIncomingMessage w (JStr p) (JStr s) tr =
            (Inl Exit, tr @ [ProcessingPost (trim s)]))
       \<or> (processingApi w tr (trim s) = Rejected \<and>
          settledAt w tr (trim s) = DuringAcknowledgment \<and>
          processIncomingMessage w (JStr p) (JStr s) tr =
            (Inl Exit, tr @ [ProcessingPost (trim s),
                             DeliveryPost (JStr p) (acknowledgment (trim s))]))
       \<or> (\<exists>final. processIncomingMessage w (JStr p) (JStr s) tr =
            (Inr (), tr @ [ProcessingPost (trim s),
                           DeliveryPost (JStr p) (acknowledgment (trim s)),
                           DeliveryPost (JStr p) final])
          \<and> (final = fallbackMessage (trim s) \<or> final = errorMessage failedToProcess
               \<or> (\<exists>cs st. formatResponseMessage (JStr (trim s)) cs st = Inr final)))"
proof (cases "processingApi w tr (trim s)")
  case (Fulfilled status result)
  from pipeline_fulfilled [OF this, of p] show ?thesis
    unfolding pim_unfold [OF assms]
    by (elim disjE exE conjE) (auto simp: sendResponseMessage_JStr)
next
  case Rejected
  show ?thesis
  proof (cases "settledAt w tr (trim s)")
    case DuringDelay
    with Rejected show ?thesis
      by (simp add: pim_unfold [OF assms] pipeline_exit_during_delay)
  next
    case DuringAcknowledgment
    with Rejected show ?thesis
      by (simp add: pim_unfold [OF assms] pipeline_exit_during_acknowledgment)
  next
    case WhileAwaited
    with Rejected show ?thesis
      by (simp add: pim_unfold [OF assms] pipeline_rejected_while_awaited
            sendResponseMessage_JStr)
  qed
qed

lemma pim_shape:
  assumes "isApprovalNumber (trim s)"
    and "processingApi w tr (trim s) = Rejected \<longrightarrow> settledAt w tr (trim s) = WhileAwaited"
  shows "\<exists>final. processIncomingMessage w (JStr p) (JStr s) tr =
            (Inr (), tr @ [ProcessingPost (trim s),
                           DeliveryPost (JStr p) (acknowledgment (trim s)),
                           DeliveryPost (JStr p) final])
          \<and> (final = fallbackMessage (trim s) \<or> final = errorMessage failedToProcess
               \<or> (\<exists>cs st. formatResponseMessage (JStr (trim s)) cs st = Inr final))"
  using pim_cases [OF assms(1), of w tr p] assms(2) by auto

section \<open>The orchestrator of \<^verbatim>\<open>webhook_server.js\<close>, and the cases of both\<close>

lemma ws_pipeline_shape:
  "(\<exists>e. ws_processIncomingMessage_pipeline w ph c tr = (Inl (Throw e), tr @ [ProcessingPost c]))
   \<or> ws_processIncomingMessage_pipeline w ph c tr =
          (Inr (), tr @ [ProcessingPost c, DeliveryPost ph (errorMessage failedToProcess)])
   \<or> (\<exists>cs st m. formatResponseMessage (JStr c) cs st = Inr m \<and>
          ws_processIncomingMessage_pipeline w ph c tr =
            (Inr (), tr @ [ProcessingPost c, DeliveryPost ph m]))"
proof (cases "processingApi w tr c")
  case Rejected
  then show ?thesis by (simp add: ws_processIncomingMessage_pipeline_def)
next
  case (Fulfilled status result)
  show ?thesis
  proof (cases "hasSummary result")
    case False
    with Fulfilled show ?thesis
      by (simp add: ws_processIncomingMessage_pipeline_def ws_sendErrorMessage_def
            ws_sendResponseMessage_any)
  next
    case True
    show ?thesis
    proof (cases "formatResponseMessage (JStr c) (getOwn result (ascii ''ui_output_8''))
                    (overallResponseOf result)")
      case (Inl e)
      with Fulfilled True show ?thesis
        by (simp add: ws_processIncomingMessage_pipeline_def Let_def)
    next
      case (Inr m)
      with Fulfilled True have "ws_processIncomingMessage_pipeline w ph c tr =
          (Inr (), tr @ [ProcessingPost c, DeliveryPost ph m])"
        by (simp add: ws_processIncomingMessage_pipeline_def Let_def ws_sendResponseMessage_any)
      with Inr show ?thesis by blast
    qed
  qed
qed

lemma ws_pim_shape:
  assumes "isApprovalNumber (trim s)"
  shows "\<exists>final. ws_processIncomingMessage w ph (JStr s) tr =
            (Inr (), tr @ [ProcessingPost (trim s), DeliveryPost ph final])
          \<and> (final = fallbackMessage (trim s) \<or> final = errorMessage failedToProcess
               \<or> (\<exists>cs st. formatResponseMessage (JStr (trim s)) cs st = Inr final))"
proof -
  have *: "ws_processIncomingMessage w ph (JStr s) tr =
      tryCatch (tryCatch (ws_processIncomingMessage_pipeline w ph (trim s) tr)
        (\<lambda>apiError tr. ws_sendResponseMessage w ph (fallbackMessage (trim s)) tr))
        (\<lambda>error tr. ws_sendErrorMessage w ph errorOccurred tr)"
    using assms
    by (simp add: ws_processIncomingMessage_def ws_processIncomingMessage_body_def trimText_def)
  from ws_pipeline_shape [of w ph "trim s" tr] show ?thesis
    unfolding * by (elim disjE exE conjE) (auto simp: ws_sendResponseMessage_any)
qed

lemma help_both:
  assumes "\<not> isApprovalNumber (trim s)"
  shows "processIncomingMessage w (JStr p) (JStr s) tr =
           (Inr (), tr @ [DeliveryPost (JStr p) helpMessage])"
    and "ws_processIncomingMessage w ph (JStr s) tr =
           (Inr (), tr @ [DeliveryPost ph helpMessage])"
  using assms
  by (simp_all add: processIncomingMessage_def processIncomingMessage_body_def trimText_def
        sendHelpMessage_def sendResponseMessage_JStr ws_processIncomingMessage_def
        ws_processIncomingMessage_body_def ws_sendHelpMessage_def ws_sendResponseMessage_any)

lemma exit_during_delay:
  assumes "isApprovalNumber (trim s)"
    and "processingApi w tr (trim s) = Rejected" and "settledAt w tr (trim s) = DuringDelay"
  shows "processIncomingMessage w (JStr p) (JStr s) tr =
           (Inl Exit, tr @ [ProcessingPost (trim s)])"
  using assms(2,3) by (simp add: pim_unfold [OF assms(1)] pipeline_exit_during_delay)

lemma exit_during_acknowledgment:
  assumes "isApprovalNumber (trim s)"
    and "processingApi w tr (trim s) = Rejected"
    and "settledAt w tr (trim s) = DuringAcknowledgment"
  shows "processIncomingMessage w (JStr p) (JStr s) tr =
           (Inl Exit, tr @ [ProcessingPost (trim s),
                            DeliveryPost (JStr p) (acknowledgment (trim s))])"
  using assms(2,3)
  by (simp add: pim_unfold [OF assms(1)] pipeline_exit_during_acknowledgment)

lemma rejected_while_awaited:
  assumes "isApprovalNumber (trim s)"
    and "processingApi w tr (trim s) = Rejected" and "settledAt w tr (trim s) = WhileAwaited"
  shows "processIncomingMessage w (JStr p) (JStr s) tr =
           (Inr (), tr @ [ProcessingPost (trim s),
                          DeliveryPost (JStr p) (acknowledgment (trim s)),
                          DeliveryPost (JStr p) (fallbackMessage (trim s))])"
  using assms(2,3)
  by (simp add: pim_unfold [OF assms(1)] pipeline_rejected_while_awaited
        sendResponseMessage_JStr)

lemma ws_rejected:
  assumes "isApprovalNumber (trim s)" and "processingApi w tr (trim s) = Rejected"
  shows "ws_processIncomingMessage w ph (JStr s) tr =
           (Inr (), tr @ [ProcessingPost (trim s), DeliveryPost ph (fallbackMessage (trim s))])"
  using assms
  by (simp add: ws_processIncomingMessage_def
        ws_processIncomingMessage_body_def ws_processIncomingMessage_pipeline_def
        trimText_def ws_sendResponseMessage_any)

lemma malformed_both:
  assumes "isApprovalNumber (trim s)" and "processingApi w tr (trim s) = Fulfilled status result"
    and "\<not> hasSummary result"
  shows "processIncomingMessage w (JStr p) (JStr s) tr =
           (Inr (), tr @ [ProcessingPost (trim s), DeliveryPost (JStr p) (acknowledgment (trim s)),
                          DeliveryPost (JStr p) (errorMessage failedToProcess)])"
    and "ws_processIncomingMessage w ph (JStr s) tr =
           (Inr (), tr @ [ProcessingPost (trim s), DeliveryPost ph (errorMessage failedToProcess)])"
  using assms
  by (simp_all add: pim_unfold processIncomingMessage_pipeline_def Let_def
        sendResponseMessage_JStr sendErrorMessage_def
        ws_processIncomingMessage_def ws_sendErrorMessage_def trimText_def
        ws_processIncomingMessage_body_def ws_processIncomingMessage_pipeline_def
        ws_sendResponseMessage_any)

lemma summary_both:
  assumes "isApprovalNumber (trim s)" and "processingApi w tr (trim s) = Fulfilled status result"
    and "getOwn result (ascii ''ui_output_8'') = JStr x" and "x \<noteq> []"
    and "toStringJS (overallResponseOf result) = Inr st"
  shows "processIncomingMessage w (JStr p) (JStr s) tr =
           (Inr (), tr @ [ProcessingPost (trim s), DeliveryPost (JStr p) (acknowledgment (trim s)),
                          DeliveryPost (JStr p) (emojiFor st @ resultTitle @ trim s @ statusLabel @ st @
                         bodyOpen @ x @ resultFooter)])"
    and "ws_processIncomingMessage w ph (JStr s) tr =
           (Inr (), tr @ [ProcessingPost (trim s), DeliveryPost ph (emojiFor st @ resultTitle @ trim s @ statusLabel @ st @
                         bodyOpen @ x @ resultFooter)])"
proof -
  from assms(3) have obj: "truthy result"
    by (cases result) (simp_all add: getOwn_def)
  with assms(3,4) have hs: "hasSummary result" by (simp add: hasSummary_def)
  have fmt: "formatResponseMessage (JStr (trim s)) (JStr x) (overallResponseOf result) =
     Inr (emojiFor st @ resultTitle @ trim s @ statusLabel @ st @ bodyOpen @ x @ resultFooter)"
    using assms(5) by (simp add: formatResponseMessage_def)
  show "processIncomingMessage w (JStr p) (JStr s) tr =
           (Inr (), tr @ [ProcessingPost (trim s), DeliveryPost (JStr p) (acknowledgment (trim s)),
                          DeliveryPost (JStr p) (emojiFor st @ resultTitle @ trim s @ statusLabel @ st @
                         bodyOpen @ x @ resultFooter)])"
    using assms hs fmt
    by (simp add: pim_unfold processIncomingMessage_pipeline_def sendResponseMessage_JStr
          Let_def logValue_def logLength_def)
  show "ws_processIncomingMessage w ph (JStr s) tr =
           (Inr (), tr @ [ProcessingPost (trim s), DeliveryPost ph (emojiFor st @ resultTitle @ trim s @ statusLabel @ st @
                         bodyOpen @ x @ resultFooter)])"
    using assms hs fmt
    by (simp add: ws_processIncomingMessage_def ws_processIncomingMessage_body_def trimText_def
        ws_processIncomingMessage_pipeline_def ws_sendResponseMessage_any Let_def)
qed

lemma orchestrator_no_throw:
  "fst (processIncomingMessage w ph txt tr) = Inr ()
   \<or> fst (processIncomingMessage w ph txt tr) = Inl Exit"
proof (cases "processIncomingMessage_body w ph txt tr")
  case (Pair res tr')
  show ?thesis
  proof (cases res)
    case (Inr u)
    with Pair show ?thesis by (simp add: processIncomingMessage_def)
  next
    case (Inl a)
    with Pair show ?thesis
      by (cases a)
         (simp_all add: processIncomingMessage_def sendErrorMessage_def sendResponseMessage_any)
  qed
qed


section \<open>No second response, and no exit in \<^verbatim>\<open>webhook_server.js\<close>\<close>

lemma quietly_refl [simp]: "quietly tr (x, tr)"
  by (simp add: quietly_def)

lemma quietly_snoc:
  "\<not> isResponse e \<Longrightarrow> quietly tr (x, tr @ [e])"
  by (simp add: quietly_def)

lemma quietly_step:
  "quietly tr (x, tr') \<Longrightarrow> quietly tr' r \<Longrightarrow> quietly tr r"
  by (auto simp: quietly_def)

lemma quietly_andThen:
  assumes "quietly tr r" and "\<And>x tr'. quietly tr' (k x tr')"
  shows "quietly tr (andThen r k)"
proof (cases r)
  case (Pair res tr')
  show ?thesis
  proof (cases res)
    case (Inl a)
    with Pair assms(1) show ?thesis by (simp add: quietly_def)
  next
    case (Inr x)
    with Pair assms(1) assms(2) [of tr' x] show ?thesis
      by (auto intro: quietly_step)
  qed
qed

lemma quietly_tryCatch:
  assumes "quietly tr r" and "\<And>e tr'. quietly tr' (h e tr')"
  shows "quietly tr (tryCatch r h)"
proof (cases r)
  case (Pair res tr')
  show ?thesis
  proof (cases res)
    case (Inl a)
    show ?thesis
    proof (cases a)
      case (Throw e)
      with Inl Pair assms(1) have "quietly tr (Inl (Throw e) :: abrupt + 'a, tr')" by simp
      from quietly_step [OF this assms(2) [of tr' e]] Throw Inl Pair show ?thesis by simp
    next
      case Exit
      with Inl Pair assms(1) show ?thesis by (simp add: quietly_def)
    qed
  next
    case (Inr x)
    with Pair assms(1) show ?thesis by (simp add: quietly_def)
  qed
qed

lemma quietly_computed [simp]: "quietly tr (computed r tr)"
  by (simp add: computed_def split: sum.split)

lemma quietly_logValue [simp]: "quietly tr (logValue v tr)"
  by (simp add: logValue_def split: sum.split)

lemma quietly_logLength [simp]: "quietly tr (logLength v tr)"
  by (simp add: logLength_def split: jsval.split)

lemma quietly_send [simp]: "quietly tr (sendResponseMessage w ph m tr)"
  by (simp add: sendResponseMessage_any quietly_def split: sum.split)

lemma quietly_ws_send [simp]: "quietly tr (ws_sendResponseMessage w ph m tr)"
  by (simp add: ws_sendResponseMessage_any quietly_def)

lemma quietly_pipeline: "quietly tr (processIncomingMessage_pipeline w ph c tr)"
proof -
  have a: "quietly tr ((Inr ()) :: abrupt + unit, tr @ [ProcessingPost c])"
    by (simp add: quietly_snoc)
  have b: "quietly tr r" if "quietly (tr @ [ProcessingPost c]) r" for r :: "unit outcome"
    using quietly_step [OF a that] .
  show ?thesis
    unfolding processIncomingMessage_pipeline_def Let_def
    by (auto simp: sendErrorMessage_def quietly_snoc
          intro!: b quietly_andThen split: reply.split)
qed

lemma quietly_orchestrator0: "quietly tr (processIncomingMessage w ph txt tr)"
  unfolding processIncomingMessage_def processIncomingMessage_body_def
  by (intro quietly_tryCatch quietly_andThen)
     (auto simp: sendErrorMessage_def sendHelpMessage_def quietly_pipeline intro!: quietly_tryCatch)

lemma quietly_ws_pipeline: "quietly tr (ws_processIncomingMessage_pipeline w ph c tr)"
proof -
  have a: "quietly tr ((Inr ()) :: abrupt + unit, tr @ [ProcessingPost c])"
    by (simp add: quietly_snoc)
  have b: "quietly tr r" if "quietly (tr @ [ProcessingPost c]) r" for r :: "unit outcome"
    using quietly_step [OF a that] .
  show ?thesis
    unfolding ws_processIncomingMessage_pipeline_def Let_def
    by (auto simp: ws_sendErrorMessage_def quietly_snoc intro!: b quietly_andThen split: reply.split)
qed

lemma quietly_ws_orchestrator0: "quietly tr (ws_processIncomingMessage w ph txt tr)"
  unfolding ws_processIncomingMessage_def ws_processIncomingMessage_body_def
  by (intro quietly_tryCatch quietly_andThen)
     (auto simp: ws_sendErrorMessage_def ws_sendHelpMessage_def quietly_ws_pipeline intro!: quietly_tryCatch)

lemma quiet_orchestrators:
  "quietOrchestrator (processIncomingMessage w)" "quietOrchestrator (ws_processIncomingMessage w)"
  by (simp_all add: quietOrchestrator_def quietly_orchestrator0 quietly_ws_orchestrator0)

lemma quietly_onMessage:
  assumes "quietOrchestrator orch"
  shows "quietly tr (onMessage orch m tr)"
  unfolding onMessage_def Let_def
  using assms by (auto simp: quietOrchestrator_def intro!: quietly_andThen)

lemma quietly_forMessages:
  assumes "quietOrchestrator orch"
  shows "quietly tr (forMessages orch ms tr)"
proof (induction ms arbitrary: tr)
  case Nil
  show ?case by simp
next
  case (Cons m ms)
  obtain res tr' where r: "onMessage orch m tr = (res, tr')" by (cases "onMessage orch m tr")
  with quietly_onMessage [OF assms] have q: "quietly tr (res, tr')" by metis
  show ?case
  proof (cases res)
    case (Inl a)
    with r q show ?thesis by simp
  next
    case (Inr u)
    with r q Cons.IH [of tr'] show ?thesis by (auto intro: quietly_step)
  qed
qed

lemma quietly_onChange:
  assumes "quietOrchestrator orch"
  shows "quietly tr (onChange orch c tr)"
  unfolding onChange_def Let_def
  by (intro quietly_andThen) (auto simp: quietly_forMessages [OF assms] intro!: quietly_andThen)

lemma quietly_forChanges:
  assumes "quietOrchestrator orch"
  shows "quietly tr (forChanges orch cs tr)"
proof (induction cs arbitrary: tr)
  case Nil
  show ?case by simp
next
  case (Cons c cs)
  obtain res tr' where r: "onChange orch c tr = (res, tr')" by (cases "onChange orch c tr")
  with quietly_onChange [OF assms] have q: "quietly tr (res, tr')" by metis
  show ?case
  proof (cases res)
    case (Inl a)
    with r q show ?thesis by simp
  next
    case (Inr u)
    with r q Cons.IH [of tr'] show ?thesis by (auto intro: quietly_step)
  qed
qed

lemma quietly_onEntry:
  assumes "quietOrchestrator orch"
  shows "quietly tr (onEntry orch e tr)"
  unfolding onEntry_def
  by (intro quietly_andThen) (auto simp: quietly_forChanges [OF assms] intro!: quietly_andThen)

lemma quietly_forEntries:
  assumes "quietOrchestrator orch"
  shows "quietly tr (forEntries orch es tr)"
proof (induction es arbitrary: tr)
  case Nil
  show ?case by simp
next
  case (Cons e es)
  obtain res tr' where r: "onEntry orch e tr = (res, tr')" by (cases "onEntry orch e tr")
  with quietly_onEntry [OF assms] have q: "quietly tr (res, tr')" by metis
  show ?case
  proof (cases res)
    case (Inl a)
    with r q show ?thesis by simp
  next
    case (Inr u)
    with r q Cons.IH [of tr'] show ?thesis by (auto intro: quietly_step)
  qed
qed

lemma quietly_extract:
  assumes "quietOrchestrator orch"
  shows "quietly tr (extractAndProcess orch data tr)"
  unfolding extractAndProcess_def
  by (intro quietly_andThen) (auto simp: quietly_forEntries [OF assms] intro!: quietly_andThen)

lemma caught_outcome:
  "tryCatch r (\<lambda>error tr. (Inr (), tr)) =
     ((if fst r = Inl Exit then Inl Exit else Inr ()), snd r)"
proof (cases r)
  case (Pair res tr')
  show ?thesis
  proof (cases res)
    case (Inl a)
    with Pair show ?thesis by (cases a) simp_all
  next
    case (Inr u)
    with Pair show ?thesis by simp
  qed
qed

lemma webhookHandler_responds_first:
  assumes "quietOrchestrator orch"
  shows "\<exists>more. snd (webhookHandler orch data tr) = tr @ Respond 200 successBody # more
           \<and> \<not> list_ex isResponse more"
proof -
  from quietly_extract [OF assms, of "tr @ [Respond 200 successBody]" data]
  show ?thesis
    by (auto simp: quietly_def webhookHandler_def caught_outcome)
qed

lemma webhookHandler_no_throw:
  "fst (webhookHandler orch data tr) = Inr () \<or> fst (webhookHandler orch data tr) = Inl Exit"
  by (simp add: webhookHandler_def caught_outcome)

lemma staysAlive_pair [simp]: "staysAlive (res, tr) = (res \<noteq> Inl Exit)"
  by (simp add: staysAlive_def)

lemma staysAlive_andThen:
  assumes "staysAlive r" and "\<And>x tr'. staysAlive (k x tr')"
  shows "staysAlive (andThen r k)"
proof (cases r)
  case (Pair res tr')
  with assms(1) assms(2) [of _ tr'] show ?thesis
    by (cases res) (simp_all add: staysAlive_def)
qed

lemma staysAlive_tryCatch:
  assumes "staysAlive r" and "\<And>e tr'. staysAlive (h e tr')"
  shows "staysAlive (tryCatch r h)"
proof (cases r)
  case (Pair res tr')
  show ?thesis
  proof (cases res)
    case (Inl a)
    with Pair assms(1) assms(2) [of _ tr'] show ?thesis
      by (cases a) (simp_all add: staysAlive_def)
  next
    case (Inr u)
    with Pair show ?thesis by simp
  qed
qed

lemma staysAlive_computed [simp]: "staysAlive (computed r tr)"
  by (simp add: computed_def split: sum.split)

lemma staysAlive_logValue [simp]: "staysAlive (logValue v tr)"
  by (simp add: logValue_def split: sum.split)

lemma staysAlive_ws_send [simp]: "staysAlive (ws_sendResponseMessage w ph m tr)"
  by (simp add: ws_sendResponseMessage_any)

lemma staysAlive_ws_pipeline: "staysAlive (ws_processIncomingMessage_pipeline w ph c tr)"
  unfolding ws_processIncomingMessage_pipeline_def Let_def
  by (auto simp: ws_sendErrorMessage_def intro!: staysAlive_andThen split: reply.split)

lemma ws_orchestrator_returns: "fst (ws_processIncomingMessage w ph txt tr) = Inr ()"
proof -
  have "staysAlive (ws_processIncomingMessage_body w ph txt tr)"
    unfolding ws_processIncomingMessage_body_def
    by (intro staysAlive_andThen)
       (auto simp: ws_sendHelpMessage_def staysAlive_ws_pipeline intro!: staysAlive_tryCatch)
  then show ?thesis
  proof (cases "ws_processIncomingMessage_body w ph txt tr")
    case (Pair res tr')
    assume "staysAlive (ws_processIncomingMessage_body w ph txt tr)"
    with Pair show ?thesis
    proof (cases res)
      case (Inl a)
      with Pair \<open>staysAlive (ws_processIncomingMessage_body w ph txt tr)\<close> show ?thesis
        by (cases a)
           (simp_all add: ws_processIncomingMessage_def ws_sendErrorMessage_def
              ws_sendResponseMessage_any)
    next
      case (Inr u)
      with Pair show ?thesis by (simp add: ws_processIncomingMessage_def)
    qed
  qed
qed

lemma ws_orchestrator_alive: "aliveOrchestrator (ws_processIncomingMessage w)"
  by (simp add: aliveOrchestrator_def staysAlive_def ws_orchestrator_returns)

lemma staysAlive_onMessage:
  assumes "aliveOrchestrator orch"
  shows "staysAlive (onMessage orch m tr)"
  unfolding onMessage_def Let_def
  using assms by (auto simp: aliveOrchestrator_def intro!: staysAlive_andThen)

lemma staysAlive_forMessages:
  assumes "aliveOrchestrator orch"
  shows "staysAlive (forMessages orch ms tr)"
proof (induction ms arbitrary: tr)
  case Nil
  show ?case by simp
next
  case (Cons m ms)
  obtain res tr' where r: "onMessage orch m tr = (res, tr')" by (cases "onMessage orch m tr")
  with staysAlive_onMessage [OF assms] have "staysAlive (res, tr')" by metis
  with r Cons.IH [of tr'] show ?case by (cases res) simp_all
qed

lemma staysAlive_onChange:
  assumes "aliveOrchestrator orch"
  shows "staysAlive (onChange orch c tr)"
  unfolding onChange_def Let_def
  by (intro staysAlive_andThen)
     (auto simp: staysAlive_forMessages [OF assms] intro!: staysAlive_andThen)

lemma staysAlive_forChanges:
  assumes "aliveOrchestrator orch"
  shows "staysAlive (forChanges orch cs tr)"
proof (induction cs arbitrary: tr)
  case Nil
  show ?case by simp
next
  case (Cons c cs)
  obtain res tr' where r: "onChange orch c tr = (res, tr')" by (cases "onChange orch c tr")
  with staysAlive_onChange [OF assms] have "staysAlive (res, tr')" by metis
  with r Cons.IH [of tr'] show ?case by (cases res) simp_all
qed

lemma staysAlive_onEntry:
  assumes "aliveOrchestrator orch"
  shows "staysAlive (onEntry orch e tr)"
  unfolding onEntry_def
  by (intro staysAlive_andThen)
     (auto simp: staysAlive_forChanges [OF assms] intro!: staysAlive_andThen)

lemma staysAlive_forEntries:
  assumes "aliveOrchestrator orch"
  shows "staysAlive (forEntries orch es tr)"
proof (induction es arbitrary: tr)
  case Nil
  show ?case by simp
next
  case (Cons e es)
  obtain res tr' where r: "onEntry orch e tr = (res, tr')" by (cases "onEntry orch e tr")
  with staysAlive_onEntry [OF assms] have "staysAlive (res, tr')" by metis
  with r Cons.IH [of tr'] show ?case by (cases res) simp_all
qed

lemma webhookHandler_returns:
  assumes "aliveOrchestrator orch"
  shows "fst (webhookHandler orch data tr) = Inr ()"
proof -
  have "staysAlive (extractAndProcess orch data (tr @ [Respond 200 successBody]))"
    unfolding extractAndProcess_def
    by (intro staysAlive_andThen)
       (auto simp: staysAlive_forEntries [OF assms] intro!: staysAlive_andThen)
  then show ?thesis
    by (simp add: webhookHandler_def caught_outcome staysAlive_def)
qed

section \<open>The formatter\<close>

lemma formatResponseMessage_strings:
  "formatResponseMessage (JStr c) (JStr x) (JStr st) =
     Inr (emojiFor st @ resultTitle @ c @ statusLabel @ st @ bodyOpen @ x @ resultFooter)"
  by (simp add: formatResponseMessage_def)

lemma emojiFor_table:
  "emojiFor (ascii ''A'') = [0x2705]"
  "emojiFor (ascii ''D'') = [0x274C]"
  "emojiFor (ascii ''F'') = [0x26A0, 0xFE0F]"
  "emojiFor (ascii ''P'') = [0x26A0, 0xFE0F]"
  by (simp_all add: emojiFor_def statusEmoji_def ascii_def)

lemma emojiFor_other:
  assumes "st \<notin> {ascii ''A'', ascii ''D'', ascii ''F'', ascii ''P''}"
    and "st \<noteq> ascii ''constructor''" and "st \<noteq> ascii ''__proto__''"
    and "st \<notin> set objectPrototypeMethods"
  shows "emojiFor st = clipboard"
  using assms by (simp add: emojiFor_def statusEmoji_def inheritedMemberText_def)

lemma emojiFor_cases:
  "emojiFor k = [0x2705] \<or> emojiFor k = [0x274C] \<or> emojiFor k = [0x26A0, 0xFE0F]
   \<or> emojiFor k = clipboard \<or> emojiFor k = ascii ''[object Object]''
   \<or> (\<exists>t. emojiFor k = ascii ''function '' @ t)"
proof -
  have c: "ascii ''function Object() { [native code] }'' =
             ascii ''function '' @ ascii ''Object() { [native code] }''"
    by (simp add: ascii_def)
  show ?thesis
  proof (cases "map_of statusEmoji k")
    case (Some glyph)
    then show ?thesis
      by (auto simp: emojiFor_def statusEmoji_def split: if_splits)
  next
    case None
    then show ?thesis
      unfolding emojiFor_def inheritedMemberText_def c
      by (simp split: if_splits)
  qed
qed

lemma formatted_not_error:
  assumes "formatResponseMessage code cs st = Inr m"
  shows "m \<noteq> errorMessage failedToProcess"
proof -
  from assms obtain k rest where m: "m = emojiFor k @ resultTitle @ rest"
    by (auto simp: formatResponseMessage_def split: sum.splits)
  have e: "errorMessage failedToProcess = [0x26A0, 0xFE0F, 0x20, 0x0641] @ drop 4 (errorMessage failedToProcess)"
    by (simp add: errorMessage_def failedToProcess_def warningSign_def ascii_def)
  have t: "resultTitle = [0x20, 0x2A] @ drop 2 resultTitle"
    by (simp add: resultTitle_def ascii_def)
  from emojiFor_cases [of k] show ?thesis
    unfolding m
    apply (subst e, subst t)
    apply (elim disjE exE)
    apply (simp_all add: clipboard_def ascii_def)
    done
qed

section \<open>Verification, extraction and the order of the runs\<close>

lemma verification_routes:
  "getRequest routes tok (ascii ''/'') q = Some (handleVerification tok q)"
  "getRequest routes tok (ascii ''/webhook'') q = Some (handleVerification tok q)"
  "getRequest ws_routes tok (ascii ''/webhook'') q = Some (handleVerification tok q)"
  by (simp_all add: getRequest_def findRoute_def matchesRoute_def withoutSlash_def
        toLowerASCII_def routes_def ws_routes_def ascii_def)

lemma verification_iff:
  "(handleVerification tok q = Respond 200 (q (ascii ''hub.challenge''))) =
     (q (ascii ''hub.mode'') = JStr (ascii ''subscribe'') \<and> q (ascii ''hub.verify_token'') = JStr tok)"
  "\<not> (q (ascii ''hub.mode'') = JStr (ascii ''subscribe'') \<and> q (ascii ''hub.verify_token'') = JStr tok)
     \<Longrightarrow> handleVerification tok q = Respond 403 (JStr (ascii ''Verification failed''))"
  by (auto simp: handleVerification_def Let_def)





lemma onMessage_textMessage:
  "onMessage orch (textMessage p i s) tr = orch (JStr p) (JStr s) tr"
  by (simp add: onMessage_def textMessage_def getProp_def getOwn_def messageTextOf_def Let_def ascii_def)




lemma webhookHandler_notification:
  "webhookHandler orch (notification ms) tr =
     tryCatch (forMessages orch ms (tr @ [Respond 200 successBody]))
       (\<lambda>error tr. (Inr (), tr))"
proof -
  obtain res tr' where r: "forMessages orch ms (tr @ [Respond 200 successBody]) = (res, tr')"
    by (cases "forMessages orch ms (tr @ [Respond 200 successBody])")
  then show ?thesis
    by (cases res)
       (simp_all add: webhookHandler_def extractAndProcess_def notification_def getProp_def
          getOwn_def iterate_def onEntry_def onChange_def itemsOrNone_def ascii_def)
qed






lemma ranBy_refl [simp]: "ranBy orch tr (x, tr)"
  unfolding ranBy_def by (rule exI [of _ "[]"]) simp



lemma ranBy_abrupt: "ranBy orch tr (Inl a, tr1) \<Longrightarrow> ranBy orch tr (Inl b, tr1)"
  by (simp add: ranBy_def)


lemma ranBy_computed [simp]: "ranBy orch tr (computed r tr)"
  by (simp add: computed_def split: sum.split)

lemma ranBy_logValue [simp]: "ranBy orch tr (logValue v tr)"
  by (simp add: logValue_def split: sum.split)








section \<open>The claims\<close>

subsection \<open>C1: messages sent for an approval number\<close>

text \<open>
  C1 says that for every message whose trimmed text is an approval number the
  orchestrator sends exactly one acknowledgment and at most one final message. In
  \<^verbatim>\<open>webhook_server.js\<close> this fails: there is no acknowledgment. With a processing
  endpoint that answers with a summary and status A, the only message sent for
  \<^verbatim>\<open>12345678\<close> is the formatted result.
\<close>

theorem C1_no_acknowledgment_in_webhook_server:
  "ws_processIncomingMessage
     (answering (JObj [(ascii ''ui_output_8'', JStr (ascii ''Approved'')),
                       (ascii ''overall_response'', JStr (ascii ''A''))]))
     (JStr sender1) (JStr (ascii ''12345678'')) [] =
   (Inr (), [ProcessingPost (ascii ''12345678''),
             DeliveryPost (JStr sender1)
               ([0x2705] @ resultTitle @ ascii ''12345678'' @ statusLabel @ ascii ''A'' @
                bodyOpen @ ascii ''Approved'' @ resultFooter)])"
proof -
  let ?r = "JObj [(ascii ''ui_output_8'', JStr (ascii ''Approved'')),
                  (ascii ''overall_response'', JStr (ascii ''A''))]"
  have 1: "isApprovalNumber (trim (ascii ''12345678''))" by simp
  have 2: "processingApi (answering ?r) [] (trim (ascii ''12345678'')) = Fulfilled 200 ?r"
    by (simp add: answering_def)
  have 3: "getOwn ?r (ascii ''ui_output_8'') = JStr (ascii ''Approved'')"
    by (simp add: getOwn_def)
  have 4: "ascii ''Approved'' \<noteq> []" by (simp add: ascii_def)
  have 5: "toStringJS (overallResponseOf ?r) = Inr (ascii ''A'')"
    by (simp add: overallResponseOf_def getOwn_def ascii_def)
  from summary_both(2) [OF 1 2 3 4 5] show ?thesis
    by (simp add: emojiFor_table)
qed

text \<open>
  C1, amended. For every sender and every text whose trimmed form is an approval
  number: \<^verbatim>\<open>part_000\<close>, when the request to the processing endpoint is fulfilled or is
  rejected only once the orchestrator awaits it, makes the request, sends exactly one
  acknowledgment and then exactly one final message; \<^verbatim>\<open>webhook_server.js\<close> makes the
  request, sends no acknowledgment and exactly one final message. In both the final
  message is the fallback, the generic error text or a formatted result, and the
  orchestrator returns normally. (A rejection that arrives in \<^verbatim>\<open>part_000\<close> before the
  promise is awaited is the subject of C4.)
\<close>

theorem C1_messages_for_approval_number:
  assumes "isApprovalNumber (trim s)"
  shows "((processingApi w tr (trim s) = Rejected \<longrightarrow> settledAt w tr (trim s) = WhileAwaited)
          \<longrightarrow> (\<exists>final. processIncomingMessage w (JStr p) (JStr s) tr =
                 (Inr (), tr @ [ProcessingPost (trim s),
                                DeliveryPost (JStr p) (acknowledgment (trim s)),
                                DeliveryPost (JStr p) final])
               \<and> (final = fallbackMessage (trim s) \<or> final = errorMessage failedToProcess
                    \<or> (\<exists>cs st. formatResponseMessage (JStr (trim s)) cs st = Inr final))))
       \<and> (\<exists>final. ws_processIncomingMessage w (JStr p) (JStr s) tr =
            (Inr (), tr @ [ProcessingPost (trim s), DeliveryPost (JStr p) final])
          \<and> (final = fallbackMessage (trim s) \<or> final = errorMessage failedToProcess
               \<or> (\<exists>cs st. formatResponseMessage (JStr (trim s)) cs st = Inr final)))"
  using pim_shape [OF assms, of w tr p] ws_pim_shape [OF assms, of w "JStr p" tr] by blast

text \<open>
  The amended C1 at the text \<^verbatim>\<open>" 12345678 "\<close>, with a processing endpoint whose request
  times out.
\<close>

theorem C1_messages_for_approval_number_witness:
  "isApprovalNumber (trim (ascii '' 12345678 ''))
   \<and> processingApi timingOut [] (trim (ascii '' 12345678 '')) = Rejected
   \<and> settledAt timingOut [] (trim (ascii '' 12345678 '')) = WhileAwaited
   \<and> processIncomingMessage timingOut (JStr sender1) (JStr (ascii '' 12345678 '')) [] =
       (Inr (), [ProcessingPost (ascii ''12345678''),
                 DeliveryPost (JStr sender1) (acknowledgment (ascii ''12345678'')),
                 DeliveryPost (JStr sender1) (fallbackMessage (ascii ''12345678''))])
   \<and> ws_processIncomingMessage timingOut (JStr sender1) (JStr (ascii '' 12345678 '')) [] =
       (Inr (), [ProcessingPost (ascii ''12345678''),
                 DeliveryPost (JStr sender1) (fallbackMessage (ascii ''12345678''))])"
proof -
  have a: "isApprovalNumber (trim (ascii '' 12345678 ''))" by simp
  have r: "processingApi timingOut [] (trim (ascii '' 12345678 '')) = Rejected"
    by (simp add: timingOut_def)
  have m: "settledAt timingOut [] (trim (ascii '' 12345678 '')) = WhileAwaited"
    by (simp add: timingOut_def)
  from C1_messages_for_approval_number [OF a, of timingOut "[]" sender1] r m
  show ?thesis
    by (auto simp: rejected_while_awaited [OF a r m] ws_rejected [OF a r])
qed

subsection \<open>C2: the response to a delivery\<close>

text \<open>
  C2. For every parsed request body, also one whose shape makes the extraction or the
  processing fail, the first thing the delivery handler of either file does is to
  respond with status 200 and the body \<^verbatim>\<open>{"status":"success"}\<close>; whatever it does
  afterwards is no further response, and no exception leaves the handler, so no error
  can turn into another status. The handler of \<^verbatim>\<open>webhook_server.js\<close> always returns;
  that of \<^verbatim>\<open>part_000\<close> returns unless the process ends on the way.
\<close>

theorem C2_response_first:
  "(\<exists>more. snd (handleIncomingWebhook w data tr) = tr @ Respond 200 successBody # more
       \<and> \<not> list_ex isResponse more)
   \<and> (fst (handleIncomingWebhook w data tr) = Inr ()
       \<or> fst (handleIncomingWebhook w data tr) = Inl Exit)
   \<and> (\<exists>more. ws_postWebhook w data tr = (Inr (), tr @ Respond 200 successBody # more)
       \<and> \<not> list_ex isResponse more)"
proof -
  from webhookHandler_responds_first [OF quiet_orchestrators(2), of w data tr]
  obtain more where "snd (ws_postWebhook w data tr) = tr @ Respond 200 successBody # more"
    and "\<not> list_ex isResponse more"
    unfolding ws_postWebhook_def by blast
  moreover have "fst (ws_postWebhook w data tr) = Inr ()"
    unfolding ws_postWebhook_def by (rule webhookHandler_returns [OF ws_orchestrator_alive])
  ultimately have "\<exists>more. ws_postWebhook w data tr = (Inr (), tr @ Respond 200 successBody # more)
       \<and> \<not> list_ex isResponse more"
    by (metis prod.collapse)
  with webhookHandler_responds_first [OF quiet_orchestrators(1), of w data tr]
       webhookHandler_no_throw [of "processIncomingMessage w" data tr]
  show ?thesis
    unfolding handleIncomingWebhook_def by blast
qed

text \<open>
  C2 at a notification whose processing fails at once (the processing endpoint refuses
  the connection), where \<^verbatim>\<open>part_000\<close> has responded before the process ends, and at a
  body whose \<^verbatim>\<open>entry\<close> is a number, which cannot be iterated.
\<close>

theorem C2_response_first_witness:
  "handleIncomingWebhook offline
     (notification [textMessage sender1 (ascii ''wamid.1'') (ascii ''12345678'')]) [] =
   (Inl Exit, [Respond 200 successBody, ProcessingPost (ascii ''12345678'')])
   \<and> handleIncomingWebhook offline (JObj [(ascii ''entry'', JNum (ascii ''5''))]) [] =
       (Inr (), [Respond 200 successBody])
   \<and> ws_postWebhook offline (JObj [(ascii ''entry'', JNum (ascii ''5''))]) [] =
       (Inr (), [Respond 200 successBody])"
proof -
  let ?n = "notification [textMessage sender1 (ascii ''wamid.1'') (ascii ''12345678'')]"
  have a: "isApprovalNumber (trim (ascii ''12345678''))" by simp
  have r: "processingApi offline tr (trim (ascii ''12345678'')) = Rejected" for tr
    by (simp add: offline_def)
  have m: "settledAt offline tr (trim (ascii ''12345678'')) = DuringDelay" for tr
    by (simp add: offline_def)
  have 1: "handleIncomingWebhook offline ?n [] =
      (Inl Exit, [Respond 200 successBody, ProcessingPost (ascii ''12345678'')])"
    by (simp add: handleIncomingWebhook_def webhookHandler_notification onMessage_textMessage
          exit_during_delay [OF a r m])
  have 2: "webhookHandler orch (JObj [(ascii ''entry'', JNum (ascii ''5''))]) [] =
       (Inr (), [Respond 200 successBody])" for orch
    by (simp add: webhookHandler_def extractAndProcess_def getProp_def
          getOwn_def iterate_def ascii_def)
  from C2_response_first [of offline ?n "[]"] 1 2 show ?thesis
    by (simp add: handleIncomingWebhook_def ws_postWebhook_def)
qed

subsection \<open>C3: the help message\<close>

text \<open>
  C3. For every sender and every text whose trimmed form is not an approval number, the
  orchestrator of either file sends the help template to the sender and does nothing
  else: in particular it makes no request to the processing endpoint.
\<close>

theorem C3_help_for_other_text:
  assumes "\<not> isApprovalNumber (trim s)"
  shows "processIncomingMessage w (JStr p) (JStr s) tr =
           (Inr (), tr @ [DeliveryPost (JStr p) helpMessage])
       \<and> ws_processIncomingMessage w (JStr p) (JStr s) tr =
           (Inr (), tr @ [DeliveryPost (JStr p) helpMessage])"
  using help_both [OF assms] by simp

text \<open>C3 at the text \<^verbatim>\<open>hello\<close>.\<close>

theorem C3_help_for_other_text_witness:
  "\<not> isApprovalNumber (trim (ascii ''hello''))
   \<and> processIncomingMessage offline (JStr sender1) (JStr (ascii ''hello'')) [] =
       (Inr (), [DeliveryPost (JStr sender1) helpMessage])
   \<and> ws_processIncomingMessage offline (JStr sender1) (JStr (ascii ''hello'')) [] =
       (Inr (), [DeliveryPost (JStr sender1) helpMessage])"
proof -
  have a: "\<not> isApprovalNumber (trim (ascii ''hello''))" by simp
  from C3_help_for_other_text [OF a, of offline sender1 "[]"] a show ?thesis by simp
qed

subsection \<open>C4: the fallback\<close>

text \<open>
  C4 says that for an approval number, if the request to the processing endpoint fails
  (time-out, network error, status outside 2xx), the final message is the fallback and
  no exception escapes the orchestrator. \<^verbatim>\<open>part_000\<close> sets out to do this in the catch
  block of its inner try, but it starts the request before the delay and the
  acknowledgment and awaits it only afterwards. When the endpoint refuses the connection
  at once, the process ends after the request: no acknowledgment and no fallback are
  sent. When the rejection arrives while the acknowledgment is being delivered, the
  process ends without the fallback.
\<close>

theorem C4_no_fallback_on_early_rejection:
  "processIncomingMessage offline (JStr sender1) (JStr (ascii ''12345678'')) [] =
     (Inl Exit, [ProcessingPost (ascii ''12345678'')])
   \<and> processIncomingMessage failingSlowly (JStr sender1) (JStr (ascii ''12345678'')) [] =
     (Inl Exit, [ProcessingPost (ascii ''12345678''),
                 DeliveryPost (JStr sender1) (acknowledgment (ascii ''12345678''))])"
proof -
  have a: "isApprovalNumber (trim (ascii ''12345678''))" by simp
  have 1: "processingApi offline [] (trim (ascii ''12345678'')) = Rejected"
          "settledAt offline [] (trim (ascii ''12345678'')) = DuringDelay"
    by (simp_all add: offline_def)
  have 2: "processingApi failingSlowly [] (trim (ascii ''12345678'')) = Rejected"
          "settledAt failingSlowly [] (trim (ascii ''12345678'')) = DuringAcknowledgment"
    by (simp_all add: failingSlowly_def)
  from exit_during_delay [OF a 1, of sender1]
       exit_during_acknowledgment [OF a 2, of sender1]
  show ?thesis by simp
qed

subsection \<open>C5: the formatter\<close>

text \<open>
  C5 says that the formatter maps A, D, F and P to their glyphs and any other status to
  the generic glyph. The code looks the status up in an object literal, and a status
  that names a member of \<^verbatim>\<open>Object.prototype\<close> finds that member instead of nothing. For
  the processing result with summary \<^verbatim>\<open>X\<close> and status \<^verbatim>\<open>constructor\<close> the message does
  not start with the generic glyph but with the source text of a function.
\<close>

theorem C5_inherited_member_for_status:
  "formatResponseMessage (JStr (ascii ''12345678'')) (JStr (ascii ''X''))
     (JStr (ascii ''constructor'')) =
     Inr (ascii ''function Object() { [native code] }'' @ resultTitle @ ascii ''12345678'' @
          statusLabel @ ascii ''constructor'' @ bodyOpen @ ascii ''X'' @ resultFooter)
   \<and> emojiFor (ascii ''constructor'') \<noteq> clipboard"
  by (simp add: formatResponseMessage_def emojiFor_def statusEmoji_def inheritedMemberText_def
        ascii_def clipboard_def)

subsection \<open>C6: a reply without summary\<close>

text \<open>
  C6. For every sender and every text whose trimmed form is an approval number, if the
  processing endpoint answers and the answer has no \<^verbatim>\<open>ui_output_8\<close>, the last message
  sent is the generic bilingual error text; and that text is not a result of the
  formatter, whatever its arguments.
\<close>

theorem C6_error_text_without_summary:
  assumes "isApprovalNumber (trim s)"
    and "processingApi w tr (trim s) = Fulfilled status result"
    and "getOwn result (ascii ''ui_output_8'') = JUndefined"
  shows "processIncomingMessage w (JStr p) (JStr s) tr =
           (Inr (), tr @ [ProcessingPost (trim s),
                          DeliveryPost (JStr p) (acknowledgment (trim s)),
                          DeliveryPost (JStr p) (errorMessage failedToProcess)])
       \<and> ws_processIncomingMessage w (JStr p) (JStr s) tr =
           (Inr (), tr @ [ProcessingPost (trim s),
                          DeliveryPost (JStr p) (errorMessage failedToProcess)])
       \<and> (\<forall>code cs st. formatResponseMessage code cs st \<noteq> Inr (errorMessage failedToProcess))"
proof -
  from assms(3) have "\<not> hasSummary result" by (simp add: hasSummary_def)
  from malformed_both [OF assms(1,2) this] formatted_not_error show ?thesis by blast
qed

text \<open>C6 at an answer that carries a status but no summary.\<close>

theorem C6_error_text_without_summary_witness:
  "isApprovalNumber (trim (ascii ''12345678''))
   \<and> processingApi (answering (JObj [(ascii ''overall_response'', JStr (ascii ''A''))])) []
        (trim (ascii ''12345678'')) =
       Fulfilled 200 (JObj [(ascii ''overall_response'', JStr (ascii ''A''))])
   \<and> getOwn (JObj [(ascii ''overall_response'', JStr (ascii ''A''))]) (ascii ''ui_output_8'') =
       JUndefined
   \<and> processIncomingMessage (answering (JObj [(ascii ''overall_response'', JStr (ascii ''A''))]))
       (JStr sender1) (JStr (ascii ''12345678'')) [] =
       (Inr (), [ProcessingPost (ascii ''12345678''),
                 DeliveryPost (JStr sender1) (acknowledgment (ascii ''12345678'')),
                 DeliveryPost (JStr sender1) (errorMessage failedToProcess)])"
proof -
  let ?r = "JObj [(ascii ''overall_response'', JStr (ascii ''A''))]"
  have a: "isApprovalNumber (trim (ascii ''12345678''))" by simp
  have r: "processingApi (answering ?r) [] (trim (ascii ''12345678'')) = Fulfilled 200 ?r"
    by (simp add: answering_def)
  have u: "getOwn ?r (ascii ''ui_output_8'') = JUndefined"
    by (simp add: getOwn_def ascii_def)
  from C6_error_text_without_summary [OF a r u, of sender1] a r u show ?thesis by simp
qed

subsection \<open>C7: verification\<close>

text \<open>
  C7 says that a verification query arriving at GET \<^verbatim>\<open>/\<close> or GET \<^verbatim>\<open>/webhook\<close> is
  answered with 200 and the challenge exactly if mode and token are right.
  \<^verbatim>\<open>webhook_server.js\<close> registers the handler for \<^verbatim>\<open>/webhook\<close> only: a query at \<^verbatim>\<open>/\<close>
  with the right mode and the configured token reaches no handler.
\<close>

theorem C7_root_not_routed_in_webhook_server:
  "getRequest ws_routes (ws_VERIFY_TOKEN Map.empty) (ascii ''/'')
     (subscribeQuery (ws_VERIFY_TOKEN Map.empty) (ascii ''1158201444'')) = None"
  by (simp add: getRequest_def findRoute_def matchesRoute_def withoutSlash_def
        toLowerASCII_def ws_routes_def ascii_def)

text \<open>
  C7, amended. A verification query arriving at a path that is routed to the
  verification handler (GET \<^verbatim>\<open>/\<close> and GET \<^verbatim>\<open>/webhook\<close> in \<^verbatim>\<open>part_000\<close>, GET
  \<^verbatim>\<open>/webhook\<close> in \<^verbatim>\<open>webhook_server.js\<close>) is answered with 200 and the echoed challenge if
  and only if the mode is the string \<^verbatim>\<open>subscribe\<close> and the token is the configured
  verification token; otherwise it is answered with 403 and a fixed text, the same for
  every configured token.
\<close>

theorem C7_verification:
  "getRequest routes tok (ascii ''/'') q = Some (handleVerification tok q)
   \<and> getRequest routes tok (ascii ''/webhook'') q = Some (handleVerification tok q)
   \<and> getRequest ws_routes tok (ascii ''/webhook'') q = Some (handleVerification tok q)
   \<and> ((handleVerification tok q = Respond 200 (q (ascii ''hub.challenge''))) =
        (q (ascii ''hub.mode'') = JStr (ascii ''subscribe'')
         \<and> q (ascii ''hub.verify_token'') = JStr tok))
   \<and> (\<not> (q (ascii ''hub.mode'') = JStr (ascii ''subscribe'')
          \<and> q (ascii ''hub.verify_token'') = JStr tok)
        \<longrightarrow> handleVerification tok q = Respond 403 (JStr (ascii ''Verification failed'')))"
  using verification_routes [where tok = tok and q = q]
        verification_iff [where tok = tok and q = q]
  by blast

text \<open>
  The amended C7 with the default token: a query with the right token at \<^verbatim>\<open>/\<close> of
  \<^verbatim>\<open>part_000\<close>, and a query with a wrong token at \<^verbatim>\<open>/webhook\<close> of \<^verbatim>\<open>webhook_server.js\<close>.
\<close>

theorem C7_verification_witness:
  "getRequest routes (VERIFY_TOKEN Map.empty) (ascii ''/'')
     (subscribeQuery (ascii ''wa_api_2026'') (ascii ''1158201444'')) =
     Some (Respond 200 (JStr (ascii ''1158201444'')))
   \<and> \<not> (subscribeQuery (ascii ''guess'') (ascii ''1158201444'') (ascii ''hub.mode'') =
          JStr (ascii ''subscribe'')
        \<and> subscribeQuery (ascii ''guess'') (ascii ''1158201444'') (ascii ''hub.verify_token'') =
          JStr (ws_VERIFY_TOKEN Map.empty))
   \<and> getRequest ws_routes (ws_VERIFY_TOKEN Map.empty) (ascii ''/webhook'')
       (subscribeQuery (ascii ''guess'') (ascii ''1158201444'')) =
       Some (Respond 403 (JStr (ascii ''Verification failed'')))"
proof -
  have t: "VERIFY_TOKEN Map.empty = ascii ''wa_api_2026''"
          "ws_VERIFY_TOKEN Map.empty = ascii ''wa_api_2026''"
    by (simp_all add: VERIFY_TOKEN_def ws_VERIFY_TOKEN_def orElse_def ascii_def)
  have g: "subscribeQuery (ascii ''guess'') c (ascii ''hub.verify_token'') \<noteq>
             JStr (ascii ''wa_api_2026'')" for c
    by (simp add: subscribeQuery_def ascii_def)
  have s: "subscribeQuery (ascii ''wa_api_2026'') c (ascii ''hub.mode'') = JStr (ascii ''subscribe'')"
          "subscribeQuery (ascii ''wa_api_2026'') c (ascii ''hub.verify_token'') =
             JStr (ascii ''wa_api_2026'')"
          "subscribeQuery (ascii ''wa_api_2026'') c (ascii ''hub.challenge'') = JStr c" for c
    by (simp_all add: subscribeQuery_def ascii_def)
  from C7_verification [of "ascii ''wa_api_2026''"
         "subscribeQuery (ascii ''wa_api_2026'') (ascii ''1158201444'')"]
       C7_verification [of "ascii ''wa_api_2026''"
         "subscribeQuery (ascii ''guess'') (ascii ''1158201444'')"]
  show ?thesis
    unfolding t using g s by auto
qed

subsection \<open>C8: absent levels of a notification\<close>



subsection \<open>C9: several messages in one notification\<close>




subsection \<open>C10: the default status\<close>

text \<open>
  C10. For every sender and every text whose trimmed form is an approval number, if the
  processing endpoint answers with a non-empty summary text and with no status
  (\<^verbatim>\<open>overall_response\<close> missing or falsy), the final message is the result template with
  the glyph of status A (the white check mark, U+2705), the approval number, the status
  letter A and the summary.
\<close>

theorem C10_default_status_A:
  assumes "isApprovalNumber (trim s)"
    and "processingApi w tr (trim s) = Fulfilled status result"
    and "getOwn result (ascii ''ui_output_8'') = JStr x" and "x \<noteq> []"
    and "\<not> truthy (getOwn result (ascii ''overall_response''))"
  shows "processIncomingMessage w (JStr p) (JStr s) tr =
           (Inr (), tr @ [ProcessingPost (trim s),
                          DeliveryPost (JStr p) (acknowledgment (trim s)),
                          DeliveryPost (JStr p)
                            ([0x2705] @ resultTitle @ trim s @ statusLabel @ ascii ''A'' @
                             bodyOpen @ x @ resultFooter)])
       \<and> ws_processIncomingMessage w (JStr p) (JStr s) tr =
           (Inr (), tr @ [ProcessingPost (trim s),
                          DeliveryPost (JStr p)
                            ([0x2705] @ resultTitle @ trim s @ statusLabel @ ascii ''A'' @
                             bodyOpen @ x @ resultFooter)])"
proof -
  from assms(5) have "toStringJS (overallResponseOf result) = Inr (ascii ''A'')"
    by (simp add: overallResponseOf_def)
  from summary_both [OF assms(1-4) this] show ?thesis
    by (simp add: emojiFor_table)
qed

text \<open>C10 at an answer that carries the summary \<^verbatim>\<open>Approved\<close> and nothing else.\<close>

theorem C10_default_status_A_witness:
  "isApprovalNumber (trim (ascii ''12345678''))
   \<and> processingApi (answering (JObj [(ascii ''ui_output_8'', JStr (ascii ''Approved''))])) []
        (trim (ascii ''12345678'')) =
       Fulfilled 200 (JObj [(ascii ''ui_output_8'', JStr (ascii ''Approved''))])
   \<and> getOwn (JObj [(ascii ''ui_output_8'', JStr (ascii ''Approved''))]) (ascii ''ui_output_8'') =
       JStr (ascii ''Approved'')
   \<and> ascii ''Approved'' \<noteq> []
   \<and> \<not> truthy (getOwn (JObj [(ascii ''ui_output_8'', JStr (ascii ''Approved''))])
                  (ascii ''overall_response''))
   \<and> processIncomingMessage (answering (JObj [(ascii ''ui_output_8'', JStr (ascii ''Approved''))]))
       (JStr sender1) (JStr (ascii ''12345678'')) [] =
       (Inr (), [ProcessingPost (ascii ''12345678''),
                 DeliveryPost (JStr sender1) (acknowledgment (ascii ''12345678'')),
                 DeliveryPost (JStr sender1)
                   ([0x2705] @ resultTitle @ ascii ''12345678'' @ statusLabel @ ascii ''A'' @
                    bodyOpen @ ascii ''Approved'' @ resultFooter)])"
proof -
  let ?r = "JObj [(ascii ''ui_output_8'', JStr (ascii ''Approved''))]"
  have a: "isApprovalNumber (trim (ascii ''12345678''))" by simp
  have r: "processingApi (answering ?r) [] (trim (ascii ''12345678'')) = Fulfilled 200 ?r"
    by (simp add: answering_def)
  have u: "getOwn ?r (ascii ''ui_output_8'') = JStr (ascii ''Approved'')"
    by (simp add: getOwn_def)
  have x: "ascii ''Approved'' \<noteq> []" by (simp add: ascii_def)
  have o: "\<not> truthy (getOwn ?r (ascii ''overall_response''))"
    by (simp add: getOwn_def ascii_def)
  from C10_default_status_A [OF a r u x o, of sender1] a r u x o show ?thesis by simp
qed

end
